theory Spec2Isabelle
  imports Complex_Main "HOL-Library.Word"
begin

section \<open>Characters and text\<close>

text \<open>
  \<open>std::string\<close> is a sequence of bytes: \<open>string\<close>. The interpreter never calls
  \<open>setlocale\<close>, so \<open>std::isspace\<close> and \<open>std::isdigit\<close> are those of the "C" locale;
  both are applied to \<open>static_cast<unsigned char>(c)\<close>, a value in 0..255.
\<close>

definition isspace :: "char \<Rightarrow> bool" where
  "isspace c \<longleftrightarrow> c = CHR '' '' \<or> (9 \<le> (of_char c :: nat) \<and> (of_char c :: nat) \<le> 13)"

definition isdigit :: "char \<Rightarrow> bool" where
  "isdigit c \<longleftrightarrow> 48 \<le> (of_char c :: nat) \<and> (of_char c :: nat) \<le> 57"

text \<open>\<open>trim\<close>: the two index loops skip white space from the left and from the right.\<close>

definition trim :: "string \<Rightarrow> string" where
  "trim s = rev (dropWhile isspace (rev (dropWhile isspace s)))"

text \<open>
  \<open>is_integer_token\<close>: empty is refused; one leading sign is skipped; nothing left
  is refused; every remaining character has to be a digit.
\<close>

definition is_integer_token :: "string \<Rightarrow> bool" where
  "is_integer_token token =
     (if token = [] then False
      else let rest = (if hd token = CHR ''+'' \<or> hd token = CHR ''-'' then tl token else token)
           in if rest = [] then False else list_all isdigit rest)"

text \<open>
  \<open>is_float_token\<close>: the loop carries \<open>seen_dot\<close> and \<open>any_digit\<close>; a second dot
  or any other character returns false at once.
\<close>

fun float_loop :: "string \<Rightarrow> bool \<Rightarrow> bool \<Rightarrow> bool" where
  "float_loop [] seen_dot any_digit = (any_digit \<and> seen_dot)"
| "float_loop (c # cs) seen_dot any_digit =
     (if isdigit c then float_loop cs seen_dot True
      else if c = CHR ''.'' then (if seen_dot then False else float_loop cs True any_digit)
      else False)"

definition is_float_token :: "string \<Rightarrow> bool" where
  "is_float_token token =
     (if token = [] then False
      else float_loop (if hd token = CHR ''+'' \<or> hd token = CHR ''-'' then tl token else token)
             False False)"

subsection \<open>The tokenizer\<close>

text \<open>
  \<open>simple_tokenize\<close>: the loop state is \<open>(tokens, current, in_quotes)\<close>. A double quote
  is appended to \<open>current\<close> and, when it closes a quotation, flushes it; white space
  outside quotes flushes a non-empty \<open>current\<close>; any other character is appended.
  After the loop a non-empty \<open>current\<close> is flushed.
\<close>

fun tokenize_loop :: "string \<Rightarrow> string list \<times> string \<times> bool \<Rightarrow> string list \<times> string \<times> bool" where
  "tokenize_loop [] st = st"
| "tokenize_loop (c # cs) (tokens, current, in_quotes) =
     (if c = CHR 0x22 then
        (if in_quotes then tokenize_loop cs (tokens @ [current @ [c]], [], False)
         else tokenize_loop cs (tokens, current @ [c], True))
      else if isspace c \<and> \<not> in_quotes then
        (if current \<noteq> [] then tokenize_loop cs (tokens @ [current], [], in_quotes)
         else tokenize_loop cs (tokens, current, in_quotes))
      else tokenize_loop cs (tokens, current @ [c], in_quotes))"

definition simple_tokenize :: "string \<Rightarrow> string list" where
  "simple_tokenize line =
     (case tokenize_loop line ([], [], False) of
        (tokens, current, in_quotes) \<Rightarrow> if current \<noteq> [] then tokens @ [current] else tokens)"

subsection \<open>Decimal text of integers\<close>

text \<open>
  \<open>oss << std::get<std::int64_t>(value)\<close> and \<open>std::cout << stack.size()\<close> print the
  decimal digits, with a minus sign for a negative value and never a plus sign.
\<close>

definition digit_char :: "nat \<Rightarrow> char" where
  "digit_char d = char_of (48 + d)"

definition digit_val :: "char \<Rightarrow> nat" where
  "digit_val c = of_char c - 48"

fun show_nat :: "nat \<Rightarrow> string" where
  "show_nat n = (if n < 10 then [digit_char n] else show_nat (n div 10) @ [digit_char (n mod 10)])"

declare show_nat.simps [simp del]

definition show_int :: "int \<Rightarrow> string" where
  "show_int i = (if i < 0 then CHR ''-'' # show_nat (nat (- i)) else show_nat (nat i))"

text \<open>
  \<open>std::stoll(token)\<close> (base 10): leading white space is skipped, one sign is read, then
  the longest run of digits; no digit throws \<open>std::invalid_argument\<close>, a value outside
  the 64-bit signed range throws \<open>std::out_of_range\<close>.
\<close>

datatype error =
    runtime_error string
  | invalid_argument string
  | out_of_range string
  | bad_variant_access

definition digits_val :: "string \<Rightarrow> nat" where
  "digits_val ds = foldl (\<lambda>acc c. acc * 10 + digit_val c) 0 ds"

definition stoll :: "string \<Rightarrow> error + 64 word" where
  "stoll str =
     (let s = dropWhile isspace str;
          neg = (s \<noteq> [] \<and> hd s = CHR ''-'');
          body = (if s \<noteq> [] \<and> (hd s = CHR ''+'' \<or> hd s = CHR ''-'') then tl s else s);
          ds = takeWhile isdigit body
      in if ds = [] then Inl (invalid_argument ''stoll'')
         else let v = (if neg then - int (digits_val ds) else int (digits_val ds))
              in if v < - (2 ^ 63) \<or> 2 ^ 63 - 1 < v then Inl (out_of_range ''stoll'')
                 else Inr (word_of_int v))"

section \<open>Values\<close>

text \<open>
  The type \<open>double\<close> and its operations belong to the platform, not to the repository:
  they are a parameter of the model, a record of the operations the interpreter uses.
  \<^item> \<open>d_of_int\<close>: \<open>static_cast<double>\<close> of a 64-bit signed integer;
  \<^item> \<open>d_add\<close>, \<open>d_sub\<close>, \<open>d_mul\<close>, \<open>d_div\<close>: \<open>+\<close>, \<open>-\<close>, \<open>*\<close>, \<open>/\<close>;
  \<^item> \<open>d_eq\<close>: \<open>==\<close> (so \<open>x != y\<close> is its negation); \<open>d_zero\<close>: the literal \<open>0.0\<close>;
  \<^item> \<open>d_llround\<close>: \<open>static_cast<std::int64_t>(std::llround(x))\<close>;
  \<^item> \<open>d_stod\<close>: \<open>std::stod\<close>, which may throw;
  \<^item> \<open>d_show\<close>: \<open>oss << x\<close> with the stream's default format.
\<close>

record 'd double_ops =
  d_of_int :: "int \<Rightarrow> 'd"
  d_add :: "'d \<Rightarrow> 'd \<Rightarrow> 'd"
  d_sub :: "'d \<Rightarrow> 'd \<Rightarrow> 'd"
  d_mul :: "'d \<Rightarrow> 'd \<Rightarrow> 'd"
  d_div :: "'d \<Rightarrow> 'd \<Rightarrow> 'd"
  d_eq :: "'d \<Rightarrow> 'd \<Rightarrow> bool"
  d_zero :: "'d"
  d_llround :: "'d \<Rightarrow> 64 word"
  d_stod :: "string \<Rightarrow> error + 'd"
  d_show :: "'d \<Rightarrow> string"

datatype WofType = Unknown | Integer | Double | String | Symbol

record 'd UnitInfo =
  name :: string
  scale :: "'d"

text \<open>\<open>Storage = std::variant<std::monostate, std::int64_t, double, std::string>\<close>.\<close>

datatype 'd Storage = Monostate | Int64 "64 word" | Dbl "'d" | Str string

text \<open>
  \<open>WofValue\<close>: the tag, the variant and the optional unit (a \<open>shared_ptr\<close> that is
  null or points to a \<open>UnitInfo\<close> nobody mutates). The default constructor gives
  \<open>Unknown\<close>, \<open>std::monostate\<close> and no unit.
\<close>

record 'd WofValue =
  wtype :: WofType
  wvalue :: "'d Storage"
  wunit :: "'d UnitInfo option"

definition WofValue_default :: "'d WofValue" where
  "WofValue_default = \<lparr>wtype = Unknown, wvalue = Monostate, wunit = None\<rparr>"

definition make_int :: "64 word \<Rightarrow> 'd WofValue" where
  "make_int v = WofValue_default\<lparr>wtype := Integer, wvalue := Int64 v\<rparr>"

definition make_double :: "'d \<Rightarrow> 'd WofValue" where
  "make_double v = WofValue_default\<lparr>wtype := Double, wvalue := Dbl v\<rparr>"

definition make_string :: "string \<Rightarrow> 'd WofValue" where
  "make_string s = WofValue_default\<lparr>wtype := String, wvalue := Str s\<rparr>"

definition make_symbol :: "string \<Rightarrow> 'd WofValue" where
  "make_symbol s = WofValue_default\<lparr>wtype := Symbol, wvalue := Str s\<rparr>"

text \<open>
  \<open>std::get<T>(value)\<close> throws \<open>std::bad_variant_access\<close> when the variant holds
  another alternative.
\<close>

definition get_int64 :: "'d Storage \<Rightarrow> error + 64 word" where
  "get_int64 st = (case st of Int64 i \<Rightarrow> Inr i | _ \<Rightarrow> Inl bad_variant_access)"

definition get_double :: "'d Storage \<Rightarrow> error + 'd" where
  "get_double st = (case st of Dbl x \<Rightarrow> Inr x | _ \<Rightarrow> Inl bad_variant_access)"

definition get_string :: "'d Storage \<Rightarrow> error + string" where
  "get_string st = (case st of Str s \<Rightarrow> Inr s | _ \<Rightarrow> Inl bad_variant_access)"

text \<open>
  The invariant of the class: the active alternative of the variant is the one the tag
  names. Every constructor establishes it.
\<close>

definition tag_matches :: "'d WofValue \<Rightarrow> bool" where
  "tag_matches v =
     (case wtype v of
        Unknown \<Rightarrow> wvalue v = Monostate
      | Integer \<Rightarrow> (case wvalue v of Int64 i \<Rightarrow> True | _ \<Rightarrow> False)
      | Double \<Rightarrow> (case wvalue v of Dbl x \<Rightarrow> True | _ \<Rightarrow> False)
      | String \<Rightarrow> (case wvalue v of Str s \<Rightarrow> True | _ \<Rightarrow> False)
      | Symbol \<Rightarrow> (case wvalue v of Str s \<Rightarrow> True | _ \<Rightarrow> False))"

text \<open>
  \<open>operator==\<close>: different tags are unequal; two units have to agree in name and scale,
  one unit alone is unequal; then the variants are compared, which is equality of the
  active alternative and of its payload, a \<open>double\<close> payload by \<open>==\<close> on \<open>double\<close>.
\<close>

definition Storage_eq :: "'d double_ops \<Rightarrow> 'd Storage \<Rightarrow> 'd Storage \<Rightarrow> bool" where
  "Storage_eq fp a b =
     (case (a, b) of
        (Monostate, Monostate) \<Rightarrow> True
      | (Int64 i, Int64 j) \<Rightarrow> i = j
      | (Dbl x, Dbl y) \<Rightarrow> d_eq fp x y
      | (Str s, Str t) \<Rightarrow> s = t
      | _ \<Rightarrow> False)"

definition WofValue_eq :: "'d double_ops \<Rightarrow> 'd WofValue \<Rightarrow> 'd WofValue \<Rightarrow> bool" where
  "WofValue_eq fp a b =
     (if wtype a \<noteq> wtype b then False
      else case (wunit a, wunit b) of
             (Some u, Some w) \<Rightarrow>
               if name u \<noteq> name w \<or> \<not> d_eq fp (scale u) (scale w) then False
               else Storage_eq fp (wvalue a) (wvalue b)
           | (None, None) \<Rightarrow> Storage_eq fp (wvalue a) (wvalue b)
           | _ \<Rightarrow> False)"

text \<open>\<open>to_string\<close>: the payload by tag, then a space and the unit's name if there is a unit.\<close>

definition to_string :: "'d double_ops \<Rightarrow> 'd WofValue \<Rightarrow> error + string" where
  "to_string fp v =
     (case (case wtype v of
              Integer \<Rightarrow> map_sum id (\<lambda>i. show_int (sint i)) (get_int64 (wvalue v))
            | Double \<Rightarrow> map_sum id (d_show fp) (get_double (wvalue v))
            | String \<Rightarrow> get_string (wvalue v)
            | Symbol \<Rightarrow> get_string (wvalue v)
            | Unknown \<Rightarrow> Inr ''<unknown>'') of
        Inl e \<Rightarrow> Inl e
      | Inr s \<Rightarrow> Inr (case wunit v of None \<Rightarrow> s | Some u \<Rightarrow> s @ '' '' @ name u))"

definition is_numeric :: "'d WofValue \<Rightarrow> bool" where
  "is_numeric v \<longleftrightarrow> wtype v = Integer \<or> wtype v = Double"

definition as_numeric :: "'d double_ops \<Rightarrow> 'd WofValue \<Rightarrow> error + 'd" where
  "as_numeric fp v =
     (if wtype v = Integer then map_sum id (\<lambda>i. d_of_int fp (sint i)) (get_int64 (wvalue v))
      else if wtype v = Double then get_double (wvalue v)
      else Inl (runtime_error ''WofValue::as_numeric: value is not numeric''))"

section \<open>The interpreter\<close>

text \<open>
  A \<open>WofOpHandler\<close> is a \<open>std::function<void(WoflangInterpreter&)>\<close>. The nine closures
  the constructor registers are named; a closure registered from outside (a plugin) is
  \<open>op_plugin k\<close>, and what it does to the interpreter is the parameter \<open>plug k\<close> of the
  dispatch functions.
\<close>

datatype WofOpHandler =
    op_add | op_sub | op_mul | op_div
  | op_dup | op_drop | op_swap | op_print | op_dot_s
  | op_plugin nat

text \<open>
  The interpreter: the stack (a vector, its top at the back), the operator table and,
  to record what is printed, the characters written to \<open>std::cout\<close>.
\<close>

record 'd Interp =
  stack :: "'d WofValue list"
  ops :: "string \<rightharpoonup> WofOpHandler"
  cout :: string

text \<open>
  A call returns a value and leaves the interpreter in a new state, or throws and
  leaves it in the state reached at the throw: nothing is rolled back.
\<close>

datatype ('a, 's) outcome = Return 'a 's | Throw error 's

definition bind :: "('a, 's) outcome \<Rightarrow> ('a \<Rightarrow> 's \<Rightarrow> ('b, 's) outcome) \<Rightarrow> ('b, 's) outcome" where
  "bind m f = (case m of Return a s \<Rightarrow> f a s | Throw e s \<Rightarrow> Throw e s)"

definition lift :: "error + 'a \<Rightarrow> 's \<Rightarrow> ('a, 's) outcome" where
  "lift r s = (case r of Inl e \<Rightarrow> Throw e s | Inr a \<Rightarrow> Return a s)"

definition error :: "string \<Rightarrow> 's \<Rightarrow> ('a, 's) outcome" where
  "error msg s = Throw (runtime_error msg) s"

definition register_op :: "string \<Rightarrow> WofOpHandler \<Rightarrow> 'd Interp \<Rightarrow> 'd Interp" where
  "register_op nm handler I = I\<lparr>ops := (ops I)(nm \<mapsto> handler)\<rparr>"

definition push :: "'d WofValue \<Rightarrow> 'd Interp \<Rightarrow> 'd Interp" where
  "push v I = I\<lparr>stack := stack I @ [v]\<rparr>"

definition stack_has :: "'d Interp \<Rightarrow> nat \<Rightarrow> bool" where
  "stack_has I n \<longleftrightarrow> n \<le> length (stack I)"

definition pop :: "'d Interp \<Rightarrow> ('d WofValue, 'd Interp) outcome" where
  "pop I =
     (if stack I = [] then error ''stack underflow'' I
      else Return (last (stack I)) (I\<lparr>stack := butlast (stack I)\<rparr>))"

definition pop_int :: "'d double_ops \<Rightarrow> 'd Interp \<Rightarrow> (64 word, 'd Interp) outcome" where
  "pop_int fp I =
     bind (pop I) (\<lambda>v I'.
       if wtype v = Integer then lift (get_int64 (wvalue v)) I'
       else if wtype v = Double then lift (map_sum id (d_llround fp) (get_double (wvalue v))) I'
       else error ''pop_int: value is not numeric'' I')"

definition pop_double :: "'d double_ops \<Rightarrow> 'd Interp \<Rightarrow> ('d, 'd Interp) outcome" where
  "pop_double fp I =
     bind (pop I) (\<lambda>v I'.
       if wtype v = Double then lift (get_double (wvalue v)) I'
       else if wtype v = Integer then
         lift (map_sum id (\<lambda>i. d_of_int fp (sint i)) (get_int64 (wvalue v))) I'
       else error ''pop_double: value is not numeric'' I')"

definition pop_numeric :: "'d double_ops \<Rightarrow> 'd Interp \<Rightarrow> ('d, 'd Interp) outcome" where
  "pop_numeric fp I =
     bind (pop I) (\<lambda>v I'.
       if wtype v = Double then lift (get_double (wvalue v)) I'
       else if wtype v = Integer then
         lift (map_sum id (\<lambda>i. d_of_int fp (sint i)) (get_int64 (wvalue v))) I'
       else error ''pop_numeric: value is not numeric'' I')"

definition pop_string :: "'d Interp \<Rightarrow> (string, 'd Interp) outcome" where
  "pop_string I =
     bind (pop I) (\<lambda>v I'.
       if wtype v = String \<or> wtype v = Symbol then lift (get_string (wvalue v)) I'
       else error ''pop_string: value is not a string'' I')"

definition pop_symbol :: "'d Interp \<Rightarrow> (string, 'd Interp) outcome" where
  "pop_symbol I =
     bind (pop I) (\<lambda>v I'.
       if wtype v = Symbol then lift (get_string (wvalue v)) I'
       else error ''pop_symbol: value is not a symbol'' I')"

definition pop_bool :: "'d double_ops \<Rightarrow> 'd Interp \<Rightarrow> (bool, 'd Interp) outcome" where
  "pop_bool fp I =
     bind (pop I) (\<lambda>v I'.
       if wtype v = Integer then lift (map_sum id (\<lambda>i. i \<noteq> 0) (get_int64 (wvalue v))) I'
       else if wtype v = Double then
         lift (map_sum id (\<lambda>x. \<not> d_eq fp x (d_zero fp)) (get_double (wvalue v))) I'
       else if wtype v = String \<or> wtype v = Symbol then
         lift (map_sum id (\<lambda>s. s \<noteq> [] \<and> s \<noteq> ''0'' \<and> s \<noteq> ''false'' \<and> s \<noteq> ''False'')
                 (get_string (wvalue v))) I'
       else Return False I')"

text \<open>\<open>std::cout << chars\<close>; \<open>std::endl\<close> writes a newline.\<close>

definition put :: "string \<Rightarrow> 'd Interp \<Rightarrow> 'd Interp" where
  "put chars I = I\<lparr>cout := cout I @ chars\<rparr>"

definition endl :: string where
  "endl = [CHR 0x0A]"

text \<open>
  \<open>print_stack\<close>: the header, then one line for each cell from the bottom. The
  prefix of a line is written before \<open>to_string\<close> is called.
\<close>

fun print_cells :: "'d double_ops \<Rightarrow> nat \<Rightarrow> 'd WofValue list \<Rightarrow> 'd Interp \<Rightarrow> (unit, 'd Interp) outcome" where
  "print_cells fp i [] I = Return () I"
| "print_cells fp i (v # vs) I =
     bind (lift (to_string fp v) (put (''  ['' @ show_nat i @ ''] '') I))
       (\<lambda>s I'. print_cells fp (Suc i) vs (put (s @ endl) I'))"

definition print_stack :: "'d double_ops \<Rightarrow> 'd Interp \<Rightarrow> (unit, 'd Interp) outcome" where
  "print_stack fp I =
     print_cells fp 0 (stack I) (put (''Stack ['' @ show_nat (length (stack I)) @ '']'' @ endl) I)"

definition clear_stack :: "'d Interp \<Rightarrow> 'd Interp" where
  "clear_stack I = I\<lparr>stack := []\<rparr>"

subsection \<open>The built-in operators\<close>

text \<open>
  The four arithmetic closures pop \<open>b\<close>, then \<open>a\<close>, both through \<open>pop_numeric\<close>, and
  push \<open>make_double\<close> of the result; \<open>/\<close> throws after both pops when \<open>b == 0.0\<close>.
\<close>

definition run_add :: "'d double_ops \<Rightarrow> 'd Interp \<Rightarrow> (unit, 'd Interp) outcome" where
  "run_add fp I =
     bind (pop_numeric fp I) (\<lambda>b I1.
     bind (pop_numeric fp I1) (\<lambda>a I2.
       Return () (push (make_double (d_add fp a b)) I2)))"

definition run_sub :: "'d double_ops \<Rightarrow> 'd Interp \<Rightarrow> (unit, 'd Interp) outcome" where
  "run_sub fp I =
     bind (pop_numeric fp I) (\<lambda>b I1.
     bind (pop_numeric fp I1) (\<lambda>a I2.
       Return () (push (make_double (d_sub fp a b)) I2)))"

definition run_mul :: "'d double_ops \<Rightarrow> 'd Interp \<Rightarrow> (unit, 'd Interp) outcome" where
  "run_mul fp I =
     bind (pop_numeric fp I) (\<lambda>b I1.
     bind (pop_numeric fp I1) (\<lambda>a I2.
       Return () (push (make_double (d_mul fp a b)) I2)))"

definition run_div :: "'d double_ops \<Rightarrow> 'd Interp \<Rightarrow> (unit, 'd Interp) outcome" where
  "run_div fp I =
     bind (pop_numeric fp I) (\<lambda>b I1.
     bind (pop_numeric fp I1) (\<lambda>a I2.
       if d_eq fp b (d_zero fp) then error ''division by zero'' I2
       else Return () (push (make_double (d_div fp a b)) I2)))"

definition run_dup :: "'d Interp \<Rightarrow> (unit, 'd Interp) outcome" where
  "run_dup I =
     (if \<not> stack_has I 1 then error ''dup requires at least one value on the stack'' I
      else Return () (push (last (stack I)) I))"

definition run_drop :: "'d Interp \<Rightarrow> (unit, 'd Interp) outcome" where
  "run_drop I =
     (if \<not> stack_has I 1 then error ''drop requires at least one value on the stack'' I
      else bind (pop I) (\<lambda>v I'. Return () I'))"

definition run_swap :: "'d Interp \<Rightarrow> (unit, 'd Interp) outcome" where
  "run_swap I =
     (if \<not> stack_has I 2 then error ''swap requires at least two values on the stack'' I
      else let stk = stack I; n = length stk
           in Return () (I\<lparr>stack := stk[n - 1 := stk ! (n - 2), n - 2 := stk ! (n - 1)]\<rparr>))"

definition run_print :: "'d double_ops \<Rightarrow> 'd Interp \<Rightarrow> (unit, 'd Interp) outcome" where
  "run_print fp I =
     (if \<not> stack_has I 1 then Return () (put (''(stack empty)'' @ endl) I)
      else bind (lift (to_string fp (last (stack I))) I) (\<lambda>s I'. Return () (put (s @ endl) I')))"

definition call :: "(nat \<Rightarrow> 'd Interp \<Rightarrow> (unit, 'd Interp) outcome) \<Rightarrow> 'd double_ops \<Rightarrow>
    WofOpHandler \<Rightarrow> 'd Interp \<Rightarrow> (unit, 'd Interp) outcome" where
  "call plug fp handler I =
     (case handler of
        op_add \<Rightarrow> run_add fp I
      | op_sub \<Rightarrow> run_sub fp I
      | op_mul \<Rightarrow> run_mul fp I
      | op_div \<Rightarrow> run_div fp I
      | op_dup \<Rightarrow> run_dup I
      | op_drop \<Rightarrow> run_drop I
      | op_swap \<Rightarrow> run_swap I
      | op_print \<Rightarrow> run_print fp I
      | op_dot_s \<Rightarrow> print_stack fp I
      | op_plugin k \<Rightarrow> plug k I)"

text \<open>The constructor: an empty stack, and the nine registrations in the source's order.\<close>

definition WoflangInterpreter :: "'d Interp" where
  "WoflangInterpreter =
     register_op ''.s'' op_dot_s (register_op ''print'' op_print (register_op ''swap'' op_swap
    (register_op ''drop'' op_drop (register_op ''dup'' op_dup (register_op ''/'' op_div
    (register_op ''*'' op_mul (register_op ''-'' op_sub (register_op ''+'' op_add
       \<lparr>stack = [], ops = Map.empty, cout = []\<rparr>))))))))"

subsection \<open>Dispatch\<close>

text \<open>
  \<open>dispatch_token\<close>: a token starting with \<open>#\<close> returns at once; a token of at least two
  characters between double quotes pushes a String of the inside; an integer token
  pushes \<open>stoll\<close> of it, a float token \<open>stod\<close> of it; a registered name runs its
  handler; anything else is pushed as a Symbol.
\<close>

definition dispatch_token :: "(nat \<Rightarrow> 'd Interp \<Rightarrow> (unit, 'd Interp) outcome) \<Rightarrow> 'd double_ops \<Rightarrow>
    string \<Rightarrow> 'd Interp \<Rightarrow> (unit, 'd Interp) outcome" where
  "dispatch_token plug fp token I =
     (if token \<noteq> [] \<and> hd token = CHR ''#'' then Return () I
      else if 2 \<le> length token \<and> hd token = CHR 0x22 \<and> last token = CHR 0x22 then
        Return () (push (make_string (take (length token - 2) (drop 1 token))) I)
      else if is_integer_token token then
        bind (lift (stoll token) I) (\<lambda>v I'. Return () (push (make_int v) I'))
      else if is_float_token token then
        bind (lift (d_stod fp token) I) (\<lambda>v I'. Return () (push (make_double v) I'))
      else case ops I token of
             Some handler \<Rightarrow> call plug fp handler I
           | None \<Rightarrow> Return () (push (make_symbol token) I))"

text \<open>
  \<open>exec_line\<close>: trim, return on an empty line, tokenize, dispatch the tokens in order.
  A throw leaves the loop.
\<close>

fun dispatch_all :: "(nat \<Rightarrow> 'd Interp \<Rightarrow> (unit, 'd Interp) outcome) \<Rightarrow> 'd double_ops \<Rightarrow>
    string list \<Rightarrow> 'd Interp \<Rightarrow> (unit, 'd Interp) outcome" where
  "dispatch_all plug fp [] I = Return () I"
| "dispatch_all plug fp (tok # tokens) I =
     bind (dispatch_token plug fp tok I) (\<lambda>u I'. dispatch_all plug fp tokens I')"

definition exec_line :: "(nat \<Rightarrow> 'd Interp \<Rightarrow> (unit, 'd Interp) outcome) \<Rightarrow> 'd double_ops \<Rightarrow>
    string \<Rightarrow> 'd Interp \<Rightarrow> (unit, 'd Interp) outcome" where
  "exec_line plug fp line I =
     (let trimmed = trim line
      in if trimmed = [] then Return () I
         else dispatch_all plug fp (simple_tokenize trimmed) I)"

section \<open>IEEE 754 binary64\<close>

text \<open>
  On the platforms the interpreter builds for, \<open>double\<close> is IEEE 754 binary64 with
  rounding to nearest, ties to even. \<open>Finite neg m e\<close> is the number
  \<open>(-1)^neg * m * 2^e\<close>, kept in the one form with \<open>m < 2^53\<close>,
  \<open>-1074 \<le> e \<le> 971\<close> and \<open>e = -1074\<close> whenever \<open>m < 2^52\<close>; a zero is
  \<open>Finite neg 0 (-1074)\<close>. A NaN keeps its sign bit, which printing shows; its payload
  bits are not distinguished. Where IEEE 754 leaves a choice, the model follows the x86-64
  instructions: an invalid operation gives the default NaN, whose sign bit is set, and a
  NaN operand is passed on (the first one if both are NaNs).
\<close>

datatype binary64 = Finite bool nat int | Infinity bool | NaN bool

fun bits :: "nat \<Rightarrow> nat" where
  "bits n = (if n = 0 then 0 else Suc (bits (n div 2)))"

declare bits.simps [simp del]

text \<open>The fraction \<open>n / d\<close> times \<open>2^(-e)\<close>, again as a fraction.\<close>

definition scaled :: "nat \<Rightarrow> nat \<Rightarrow> int \<Rightarrow> nat \<times> nat" where
  "scaled n d e = (if 0 \<le> e then (n, d * 2 ^ nat e) else (n * 2 ^ nat (- e), d))"

definition round_half_even :: "nat \<times> nat \<Rightarrow> nat" where
  "round_half_even f =
     (case f of (n, d) \<Rightarrow>
        let q = n div d; r = n mod d
        in if 2 * r < d then q else if d < 2 * r then q + 1 else if even q then q else q + 1)"

text \<open>
  The floor of the binary logarithm of \<open>n / d\<close> for \<open>n, d > 0\<close>, which
  \<open>bits n - bits d\<close> misses by at most one.
\<close>

definition floor_log2 :: "nat \<Rightarrow> nat \<Rightarrow> int" where
  "floor_log2 n d =
     (let k = int (bits n) - int (bits d)
      in case scaled n d k of (a, b) \<Rightarrow> if b \<le> a then k else k - 1)"

text \<open>The binary64 nearest to \<open>(-1)^neg * n / d\<close> for \<open>n, d > 0\<close>.\<close>

definition round_frac :: "bool \<Rightarrow> nat \<Rightarrow> nat \<Rightarrow> binary64" where
  "round_frac neg n d =
     (let e = max (floor_log2 n d - 52) (- 1074);
          m = round_half_even (scaled n d e);
          m' = (if m = 2 ^ 53 then 2 ^ 52 else m);
          e' = (if m = 2 ^ 53 then e + 1 else e)
      in if 971 < e' then Infinity neg else Finite neg m' e')"

definition b64_of_int :: "int \<Rightarrow> binary64" where
  "b64_of_int i = (if i = 0 then Finite False 0 (- 1074) else round_frac (i < 0) (nat \<bar>i\<bar>) 1)"

definition b64_neg :: "binary64 \<Rightarrow> binary64" where
  "b64_neg x =
     (case x of
        Finite s m e \<Rightarrow> Finite (\<not> s) m e
      | Infinity s \<Rightarrow> Infinity (\<not> s)
      | NaN s \<Rightarrow> NaN (\<not> s))"

text \<open>
  A sum of two finite numbers is exact as an integer multiple of \<open>2^(min e1 e2)\<close>;
  an exact zero is negative only when both operands are negative.
\<close>

definition b64_add :: "binary64 \<Rightarrow> binary64 \<Rightarrow> binary64" where
  "b64_add x y =
     (case (x, y) of
        (NaN s, _) \<Rightarrow> NaN s
      | (_, NaN t) \<Rightarrow> NaN t
      | (Infinity s, Infinity t) \<Rightarrow> if s = t then Infinity s else NaN True
      | (Infinity s, Finite t n f) \<Rightarrow> Infinity s
      | (Finite s m e, Infinity t) \<Rightarrow> Infinity t
      | (Finite s m e, Finite t n f) \<Rightarrow>
          let g = min e f;
              a = (if s then - int m else int m) * 2 ^ nat (e - g);
              b = (if t then - int n else int n) * 2 ^ nat (f - g);
              c = a + b
          in if c = 0 then Finite (s \<and> t) 0 (- 1074)
             else case scaled (nat \<bar>c\<bar>) 1 (- g) of (p, q) \<Rightarrow> round_frac (c < 0) p q)"

definition b64_sub :: "binary64 \<Rightarrow> binary64 \<Rightarrow> binary64" where
  "b64_sub x y =
     (case (x, y) of
        (NaN s, _) \<Rightarrow> NaN s
      | (_, NaN t) \<Rightarrow> NaN t
      | _ \<Rightarrow> b64_add x (b64_neg y))"

definition b64_mul :: "binary64 \<Rightarrow> binary64 \<Rightarrow> binary64" where
  "b64_mul x y =
     (case (x, y) of
        (NaN s, _) \<Rightarrow> NaN s
      | (_, NaN t) \<Rightarrow> NaN t
      | (Infinity s, Infinity t) \<Rightarrow> Infinity (s \<noteq> t)
      | (Infinity s, Finite t n f) \<Rightarrow> if n = 0 then NaN True else Infinity (s \<noteq> t)
      | (Finite s m e, Infinity t) \<Rightarrow> if m = 0 then NaN True else Infinity (s \<noteq> t)
      | (Finite s m e, Finite t n f) \<Rightarrow>
          if m * n = 0 then Finite (s \<noteq> t) 0 (- 1074)
          else case scaled (m * n) 1 (- (e + f)) of (p, q) \<Rightarrow> round_frac (s \<noteq> t) p q)"

definition b64_div :: "binary64 \<Rightarrow> binary64 \<Rightarrow> binary64" where
  "b64_div x y =
     (case (x, y) of
        (NaN s, _) \<Rightarrow> NaN s
      | (_, NaN t) \<Rightarrow> NaN t
      | (Infinity s, Infinity t) \<Rightarrow> NaN True
      | (Infinity s, Finite t n f) \<Rightarrow> Infinity (s \<noteq> t)
      | (Finite s m e, Infinity t) \<Rightarrow> Finite (s \<noteq> t) 0 (- 1074)
      | (Finite s m e, Finite t n f) \<Rightarrow>
          if n = 0 then (if m = 0 then NaN True else Infinity (s \<noteq> t))
          else if m = 0 then Finite (s \<noteq> t) 0 (- 1074)
          else case scaled m n (f - e) of (p, q) \<Rightarrow> round_frac (s \<noteq> t) p q)"

text \<open>\<open>==\<close>: a NaN equals nothing, the two zeros are equal.\<close>

definition b64_eq :: "binary64 \<Rightarrow> binary64 \<Rightarrow> bool" where
  "b64_eq x y =
     (case (x, y) of
        (Finite s m e, Finite t n f) \<Rightarrow> (m = 0 \<and> n = 0) \<or> (s = t \<and> m = n \<and> e = f)
      | (Infinity s, Infinity t) \<Rightarrow> s = t
      | _ \<Rightarrow> False)"

text \<open>
  \<open>std::llround\<close> rounds to the nearest integer, halves away from zero:
  \<open>b64_magnitude m e\<close> is \<open>m * 2^e\<close> so rounded. For a NaN, an infinity or a value
  outside the 64-bit range the C standard leaves the result unspecified and no exception
  is thrown; the x86-64 conversion gives the least integer.
\<close>

definition b64_magnitude :: "nat \<Rightarrow> int \<Rightarrow> nat" where
  "b64_magnitude m e =
     (if 0 \<le> e then m * 2 ^ nat e else (2 * m + 2 ^ nat (- e)) div (2 * 2 ^ nat (- e)))"

definition b64_llround :: "binary64 \<Rightarrow> 64 word" where
  "b64_llround x =
     (case x of
        Finite s m e \<Rightarrow>
          let i = (if s then - int (b64_magnitude m e) else int (b64_magnitude m e))
          in if - (2 ^ 63) \<le> i \<and> i \<le> 2 ^ 63 - 1 then word_of_int i else word_of_int (- (2 ^ 63))
      | _ \<Rightarrow> word_of_int (- (2 ^ 63)))"

text \<open>
  Underflow, as x86-64 detects it, after rounding: \<open>n / d\<close> rounded to 53 bits with no
  lower bound on the exponent is still below the least normal number \<open>2^(-1022)\<close>.
\<close>

definition tiny_after_rounding :: "nat \<Rightarrow> nat \<Rightarrow> bool" where
  "tiny_after_rounding n d =
     (let e = floor_log2 n d - 52
      in e < - 1074 \<and> \<not> (e = - 1075 \<and> round_half_even (scaled n d e) = 2 ^ 53))"

text \<open>
  \<open>std::stod\<close> on the texts \<open>dispatch_token\<close> passes to it: a sign, digits, one point,
  digits. The decimal number is rounded once; \<open>std::out_of_range\<close> is thrown when
  \<open>strtod\<close> reports \<open>ERANGE\<close>: the result overflows, or the number is tiny in the
  sense above and its rounding is inexact.
\<close>

definition b64_stod :: "string \<Rightarrow> error + binary64" where
  "b64_stod str =
     (let s = dropWhile isspace str;
          neg = (s \<noteq> [] \<and> hd s = CHR ''-'');
          body = (if s \<noteq> [] \<and> (hd s = CHR ''+'' \<or> hd s = CHR ''-'') then tl s else s);
          ip = takeWhile isdigit body;
          after = dropWhile isdigit body;
          fr = (if after \<noteq> [] \<and> hd after = CHR ''.'' then takeWhile isdigit (tl after) else []);
          n = digits_val (ip @ fr);
          d = 10 ^ length fr
      in if ip = [] \<and> fr = [] then Inl (invalid_argument ''stod'')
         else if n = 0 then Inr (Finite neg 0 (- 1074))
         else case round_frac neg n d of
                Finite t m e \<Rightarrow>
                  if tiny_after_rounding n d \<and> (case scaled n d e of (a, b) \<Rightarrow> a \<noteq> m * b)
                  then Inl (out_of_range ''stod'')
                  else Inr (Finite t m e)
              | _ \<Rightarrow> Inl (out_of_range ''stod''))"

text \<open>
  \<open>oss << x\<close> with the stream's defaults is \<open>printf("%g")\<close>: six significant digits,
  correctly rounded; exponent notation when the decimal exponent is below \<open>-4\<close> or at
  least \<open>6\<close>; trailing zeros removed.
\<close>

fun neg_exp10 :: "nat \<Rightarrow> nat \<Rightarrow> nat \<Rightarrow> nat \<Rightarrow> nat" where
  "neg_exp10 0 n d k = k"
| "neg_exp10 (Suc fuel) n d k = (if d \<le> n * 10 ^ k then k else neg_exp10 fuel n d (Suc k))"

definition exp10 :: "nat \<Rightarrow> nat \<Rightarrow> int" where
  "exp10 n d = (if d \<le> n then int (length (show_nat (n div d))) - 1 else - int (neg_exp10 (bits d) n d 1))"

definition scaled10 :: "nat \<Rightarrow> nat \<Rightarrow> int \<Rightarrow> nat \<times> nat" where
  "scaled10 n d x = (if 0 \<le> x then (n, d * 10 ^ nat x) else (n * 10 ^ nat (- x), d))"

definition strip_zeros :: "string \<Rightarrow> string" where
  "strip_zeros ds = rev (dropWhile (\<lambda>c. c = CHR ''0'') (rev ds))"

definition with_point :: "string \<Rightarrow> string \<Rightarrow> string" where
  "with_point ip fr = (if strip_zeros fr = [] then ip else ip @ ''.'' @ strip_zeros fr)"

definition show_g :: "nat \<Rightarrow> nat \<Rightarrow> string" where
  "show_g n d =
     (let x0 = exp10 n d;
          m = round_half_even (scaled10 n d (x0 - 5));
          x = (if m = 10 ^ 6 then x0 + 1 else x0);
          ds = show_nat (if m = 10 ^ 6 then 10 ^ 5 else m)
      in if x < - 4 \<or> 6 \<le> x then
           with_point (take 1 ds) (drop 1 ds) @ ''e'' @ (if x < 0 then ''-'' else ''+'')
             @ (if \<bar>x\<bar> < 10 then ''0'' else []) @ show_nat (nat \<bar>x\<bar>)
         else if 0 \<le> x then with_point (take (nat x + 1) ds) (drop (nat x + 1) ds)
         else with_point ''0'' (replicate (nat (- x - 1)) CHR ''0'' @ ds))"

definition b64_show :: "binary64 \<Rightarrow> string" where
  "b64_show x =
     (case x of
        NaN s \<Rightarrow> (if s then ''-nan'' else ''nan'')
      | Infinity s \<Rightarrow> (if s then ''-inf'' else ''inf'')
      | Finite s m e \<Rightarrow>
          (if s then ''-'' else []) @
          (if m = 0 then ''0'' else case scaled m 1 (- e) of (p, q) \<Rightarrow> show_g p q))"

definition binary64_ops :: "binary64 double_ops" where
  "binary64_ops =
     \<lparr>d_of_int = b64_of_int, d_add = b64_add, d_sub = b64_sub, d_mul = b64_mul,
      d_div = b64_div, d_eq = b64_eq, d_zero = Finite False 0 (- 1074),
      d_llround = b64_llround, d_stod = b64_stod, d_show = b64_show\<rparr>"

text \<open>An interpreter without plugins: no \<open>op_plugin\<close> closure is ever registered.\<close>

definition no_plugins :: "nat \<Rightarrow> 'd Interp \<Rightarrow> (unit, 'd Interp) outcome" where
  "no_plugins k I = Return () I"

section \<open>Notions used in the statements\<close>

text \<open>
  The integer a token of the integer grammar denotes: the sign and the decimal digits.
\<close>

definition token_value :: "string \<Rightarrow> int" where
  "token_value token =
     (if hd token = CHR ''-'' then - int (digits_val (tl token))
      else if hd token = CHR ''+'' then int (digits_val (tl token))
      else int (digits_val token))"

text \<open>
  A token is in canonical form when it has no plus sign and its digits do not start with
  \<open>0\<close>, the token \<open>0\<close> itself apart (so \<open>-0\<close>, \<open>007\<close> and \<open>+5\<close> are not canonical).
\<close>

definition canonical_integer_token :: "string \<Rightarrow> bool" where
  "canonical_integer_token token \<longleftrightarrow>
     token \<noteq> [] \<and> hd token \<noteq> CHR ''+'' \<and>
     (let ds = (if hd token = CHR ''-'' then tl token else token)
      in ds \<noteq> [] \<and> (hd ds \<noteq> CHR ''0'' \<or> token = ''0''))"

text \<open>
  A value whose \<open>double\<close>s (the payload of a Double, the scale of a unit) compare equal
  to themselves; under IEEE 754 that is: none of them is a NaN.
\<close>

definition self_equal :: "'d double_ops \<Rightarrow> 'd WofValue \<Rightarrow> bool" where
  "self_equal fp v \<longleftrightarrow>
     (case wvalue v of Dbl x \<Rightarrow> d_eq fp x x | _ \<Rightarrow> True) \<and>
     (case wunit v of Some u \<Rightarrow> d_eq fp (scale u) (scale u) | None \<Rightarrow> True)"

text \<open>The real number a finite binary64 stands for.\<close>

definition b64_value :: "binary64 \<Rightarrow> real" where
  "b64_value x =
     (case x of
        Finite s m e \<Rightarrow>
          (if s then - 1 else 1) *
          (if 0 \<le> e then real m * 2 ^ nat e else real m / 2 ^ nat (- e))
      | _ \<Rightarrow> 0)"

text \<open>
  What a client of the interpreter does to it after a registration: it executes lines and
  registers operators. \<open>perform\<close> runs such a sequence; a line that throws leaves the
  interpreter in the state of the throw, as the read loop of \<open>repl\<close> does.
\<close>

datatype action = ExecLine string | RegisterOp string WofOpHandler

text \<open>
  The interpreter a call leaves behind, returned or thrown; and the interpreters whose
  stack holds only values that satisfy the invariant of the class.
\<close>

definition state_of :: "('a, 's) outcome \<Rightarrow> 's" where
  "state_of r = (case r of Return a s \<Rightarrow> s | Throw e s \<Rightarrow> s)"

definition well_tagged :: "'d Interp \<Rightarrow> bool" where
  "well_tagged I \<longleftrightarrow> list_all tag_matches (stack I)"

fun perform :: "(nat \<Rightarrow> 'd Interp \<Rightarrow> (unit, 'd Interp) outcome) \<Rightarrow> 'd double_ops \<Rightarrow>
    action list \<Rightarrow> 'd Interp \<Rightarrow> 'd Interp" where
  "perform plug fp [] I = I"
| "perform plug fp (ExecLine line # acts) I =
     perform plug fp acts (state_of (exec_line plug fp line I))"
| "perform plug fp (RegisterOp nm handler # acts) I =
     perform plug fp acts (register_op nm handler I)"

text \<open>No action of the sequence registers an operator under the name.\<close>

definition leaves_name :: "string \<Rightarrow> action list \<Rightarrow> bool" where
  "leaves_name nm acts \<longleftrightarrow>
     list_all (\<lambda>a. case a of RegisterOp n handler \<Rightarrow> n \<noteq> nm | ExecLine line \<Rightarrow> True) acts"

text \<open>A plugin closure that clears the stack, to run the model with a plugin.\<close>

definition clearing_plugin :: "nat \<Rightarrow> 'd Interp \<Rightarrow> (unit, 'd Interp) outcome" where
  "clearing_plugin k I = Return () (clear_stack I)"

section \<open>Basic facts\<close>

lemma bind_simps [simp]:
  "bind (Return a s) f = f a s"
  "bind (Throw e s) f = Throw e s"
  by (simp_all add: bind_def)

lemma lift_simps [simp]:
  "lift (Inr a) s = Return a s"
  "lift (Inl e) s = Throw e s"
  by (simp_all add: lift_def)

lemma pop_snoc [simp]:
  "pop (I\<lparr>stack := s @ [v]\<rparr>) = Return v (I\<lparr>stack := s\<rparr>)"
  by (simp add: pop_def)

lemma pop_empty:
  "stack I = [] \<Longrightarrow> pop I = Throw (runtime_error ''stack underflow'') I"
  by (simp add: pop_def error_def)

lemmas char_eval =
  isspace_def isdigit_def digit_val_def digit_char_def char_of_eq_iff take_bit_eq_mod

lemmas line_eval =
  exec_line_def trim_def simple_tokenize_def dispatch_token_def
  is_integer_token_def is_float_token_def stoll_def digits_val_def Let_def char_eval
  push_def call_def pop_numeric_def pop_def run_add_def run_div_def error_def
  make_int_def make_double_def make_symbol_def WofValue_default_def get_int64_def get_double_def
  WoflangInterpreter_def register_op_def

lemmas b64_eval =
  binary64_ops_def b64_of_int_def b64_add_def b64_sub_def b64_neg_def b64_mul_def b64_div_def
  b64_eq_def round_frac_def floor_log2_def bits.simps scaled_def round_half_even_def Let_def

subsection \<open>The invariant of values\<close>

lemma tag_matches_constructors:
  "tag_matches (WofValue_default :: 'd WofValue)"
  "tag_matches (make_int i :: 'd WofValue)"
  "tag_matches (make_double x)"
  "tag_matches (make_string t :: 'd WofValue)"
  "tag_matches (make_symbol t :: 'd WofValue)"
  by (simp_all add: tag_matches_def WofValue_default_def make_int_def make_double_def
        make_string_def make_symbol_def)

lemma tag_matches_cases:
  assumes "tag_matches v"
  obtains (Integer) i where "wtype v = Integer" "wvalue v = Int64 i"
  | (Double) x where "wtype v = Double" "wvalue v = Dbl x"
  | (String) t where "wtype v = String" "wvalue v = Str t"
  | (Symbol) t where "wtype v = Symbol" "wvalue v = Str t"
  | (Unknown) "wtype v = Unknown" "wvalue v = Monostate"
  using assms
  by (cases "wtype v"; cases "wvalue v") (auto simp add: tag_matches_def)

lemma as_numeric_total:
  assumes "tag_matches v" and "is_numeric v"
  shows "\<exists>x. as_numeric fp v = Inr x"
  using assms(1)
proof (cases rule: tag_matches_cases)
  case (Integer i)
  then show ?thesis by (simp add: as_numeric_def get_int64_def)
next
  case (Double x)
  then show ?thesis by (simp add: as_numeric_def get_double_def)
qed (use assms(2) in \<open>simp_all add: is_numeric_def\<close>)

lemma WofValue_eq_self: "WofValue_eq fp v v \<longleftrightarrow> self_equal fp v"
  by (cases "wvalue v"; cases "wunit v")
     (simp_all add: WofValue_eq_def Storage_eq_def self_equal_def)

subsection \<open>The invariant on the stack\<close>

text \<open>
  Every value on the stack satisfies the invariant, as long as the plugins keep it: the
  constructor starts with an empty stack, and no built-in operator and no step of
  dispatch puts anything else on it, whether it returns or throws.
\<close>

lemma state_of_simps [simp]:
  "state_of (Return a s) = s" "state_of (Throw e s) = s"
  by (simp_all add: state_of_def)

lemma wt_bind:
  assumes "well_tagged (state_of m)"
    and "\<And>a s. well_tagged s \<Longrightarrow> well_tagged (state_of (f a s))"
  shows "well_tagged (state_of (bind m f))"
  using assms by (cases m) simp_all

lemma wt_lift: "well_tagged s \<Longrightarrow> well_tagged (state_of (lift r s))"
  by (cases r) simp_all

lemma wt_error: "well_tagged s \<Longrightarrow> well_tagged (state_of (error msg s))"
  by (simp add: error_def)

lemma wt_butlast: "well_tagged I \<Longrightarrow> well_tagged (I\<lparr>stack := butlast (stack I)\<rparr>)"
  by (auto simp add: well_tagged_def list_all_iff dest: in_set_butlastD)

lemma wt_push: "well_tagged I \<Longrightarrow> tag_matches v \<Longrightarrow> well_tagged (push v I)"
  by (simp add: well_tagged_def push_def)

lemma wt_put: "well_tagged I \<Longrightarrow> well_tagged (put chars I)"
  by (simp add: well_tagged_def put_def)

lemma wt_pop: "well_tagged I \<Longrightarrow> well_tagged (state_of (pop I))"
  by (simp add: pop_def wt_error wt_butlast)

lemma wt_pop_numeric: "well_tagged I \<Longrightarrow> well_tagged (state_of (pop_numeric fp I))"
  unfolding pop_numeric_def by (intro wt_bind wt_pop) (simp_all add: wt_lift wt_error)

lemma wt_arith:
  assumes "well_tagged I"
  shows "well_tagged (state_of (run_add fp I))" "well_tagged (state_of (run_sub fp I))"
    "well_tagged (state_of (run_mul fp I))" "well_tagged (state_of (run_div fp I))"
  unfolding run_add_def run_sub_def run_mul_def run_div_def
  by (intro wt_bind wt_pop_numeric assms; simp add: wt_push wt_error tag_matches_constructors)+

lemma wt_dup: "well_tagged I \<Longrightarrow> well_tagged (state_of (run_dup I))"
  by (cases "stack I" rule: rev_cases)
     (auto simp add: run_dup_def stack_has_def error_def well_tagged_def push_def)

lemma wt_drop: "well_tagged I \<Longrightarrow> well_tagged (state_of (run_drop I))"
  unfolding run_drop_def by (auto intro!: wt_bind wt_pop simp add: wt_error)

lemma wt_swap: "well_tagged I \<Longrightarrow> well_tagged (state_of (run_swap I))"
proof -
  assume wt: "well_tagged I"
  have "list_all tag_matches (xs[i := xs ! j, k := xs ! l])"
    if "list_all tag_matches xs" "j < length xs" "l < length xs" for xs :: "'a WofValue list" and i j k l
    using that by (auto simp add: list_all_iff dest!: set_update_subset_insert [THEN subsetD])
  then show ?thesis
    using wt by (auto simp add: run_swap_def stack_has_def error_def well_tagged_def Let_def)
qed

lemma wt_print: "well_tagged I \<Longrightarrow> well_tagged (state_of (run_print fp I))"
  unfolding run_print_def by (auto intro!: wt_bind wt_lift simp add: wt_put)

lemma wt_print_cells: "well_tagged I \<Longrightarrow> well_tagged (state_of (print_cells fp i vs I))"
  by (induction vs arbitrary: i I) (auto intro!: wt_bind wt_lift simp add: wt_put)

lemma wt_print_stack: "well_tagged I \<Longrightarrow> well_tagged (state_of (print_stack fp I))"
  by (simp add: print_stack_def wt_print_cells wt_put)

lemma wt_call:
  assumes "well_tagged I" and "\<And>k J. well_tagged J \<Longrightarrow> well_tagged (state_of (plug k J))"
  shows "well_tagged (state_of (call plug fp handler I))"
  using assms
  by (cases handler)
     (simp_all add: call_def wt_arith wt_dup wt_drop wt_swap wt_print wt_print_stack)

lemma wt_dispatch_token:
  assumes "well_tagged I" and "\<And>k J. well_tagged J \<Longrightarrow> well_tagged (state_of (plug k J))"
  shows "well_tagged (state_of (dispatch_token plug fp token I))"
  unfolding dispatch_token_def
  using assms
  by (auto intro!: wt_bind wt_lift wt_call wt_push simp add: tag_matches_constructors
      split: option.splits)

lemma wt_dispatch_all:
  assumes "well_tagged I" and "\<And>k J. well_tagged J \<Longrightarrow> well_tagged (state_of (plug k J))"
  shows "well_tagged (state_of (dispatch_all plug fp tokens I))"
  using assms(1)
  by (induction tokens arbitrary: I) (auto intro!: wt_bind wt_dispatch_token assms(2))

lemma wt_exec_line:
  assumes "well_tagged I" and "\<And>k J. well_tagged J \<Longrightarrow> well_tagged (state_of (plug k J))"
  shows "well_tagged (state_of (exec_line plug fp line I))"
  using assms by (simp add: exec_line_def Let_def wt_dispatch_all)

lemma wt_new: "well_tagged WoflangInterpreter"
  by (simp add: well_tagged_def WoflangInterpreter_def register_op_def)

section \<open>Comments\<close>

text \<open>
  C1: once a token beginning with \<open>#\<close> is met, no later token of the line reaches
  evaluation. The code does otherwise: \<open>dispatch_token\<close> returns for the token that
  starts with \<open>#\<close> only, and the loop of \<open>exec_line\<close> goes on with the next token.
  On the line \<open>1 # 2 +\<close> the tokens \<open>2\<close> and \<open>+\<close> after the marker are evaluated:
  the stack ends with the one value 3.0.
\<close>

theorem comment_tail_is_dispatched:
  "exec_line no_plugins binary64_ops ''1 # 2 +'' WoflangInterpreter =
     Return () (WoflangInterpreter\<lparr>stack := [make_double (d_of_int binary64_ops 3)]\<rparr>)"
  by (simp add: line_eval b64_eval)

section \<open>The tokenizer and an unterminated quote\<close>

lemma tokenize_loop_append:
  "tokenize_loop (xs @ ys) st = tokenize_loop ys (tokenize_loop xs st)"
proof (induction xs arbitrary: st)
  case Nil
  show ?case by simp
next
  case (Cons c cs)
  obtain tokens current in_quotes where st: "st = (tokens, current, in_quotes)"
    by (cases st) auto
  show ?case unfolding st by (simp add: Cons.IH)
qed

lemma tokenize_loop_in_quotes:
  "snd (snd (tokenize_loop xs (tokens, current, in_quotes))) =
     (in_quotes \<noteq> odd (count_list xs (CHR 0x22)))"
  by (induction xs arbitrary: tokens current in_quotes) auto

lemma tokenize_loop_inside_quotes:
  "CHR 0x22 \<notin> set xs \<Longrightarrow>
     tokenize_loop xs (tokens, current, True) = (tokens, current @ xs, True)"
  by (induction xs arbitrary: current) auto

text \<open>
  C2, as the code has it: a line whose last double quote is unmatched (an even number of
  quotes before it, none after it) does not lose the text after that quote. The loop ends
  inside the quotation with that text in \<open>current\<close>, and the flush after the loop emits
  it as the last token: whatever was pending in \<open>current\<close> when the quote was read, the
  quote, and every character after it, white space included. The tokens before it are
  those the loop had produced when it reached the quote.
\<close>

theorem unterminated_quote_is_flushed:
  assumes "even (count_list pre (CHR 0x22))" and "CHR 0x22 \<notin> set rest"
  shows "simple_tokenize (pre @ CHR 0x22 # rest) =
           fst (tokenize_loop pre ([], [], False)) @
           [fst (snd (tokenize_loop pre ([], [], False))) @ CHR 0x22 # rest]"
proof -
  obtain tokens current q where st: "tokenize_loop pre ([], [], False) = (tokens, current, q)"
    by (cases "tokenize_loop pre ([], [], False)") auto
  have "q = False"
    using tokenize_loop_in_quotes [of pre "[]" "[]" False] assms(1) by (simp add: st)
  then have "tokenize_loop (pre @ CHR 0x22 # rest) ([], [], False) =
      (tokens, current @ CHR 0x22 # rest, True)"
    using assms(2) by (simp add: tokenize_loop_append st tokenize_loop_inside_quotes)
  then show ?thesis
    by (simp add: simple_tokenize_def st)
qed

text \<open>The line \<open>say "hello world\<close> gives the two tokens \<open>say\<close> and \<open>"hello world\<close>.\<close>

theorem unterminated_quote_is_flushed_witness:
  "simple_tokenize (''say '' @ CHR 0x22 # ''hello world'') =
     [''say'', CHR 0x22 # ''hello world'']"
proof -
  have "even (count_list ''say '' (CHR 0x22))" and "CHR 0x22 \<notin> set ''hello world''"
    by simp_all
  then have "simple_tokenize (''say '' @ CHR 0x22 # ''hello world'') =
           fst (tokenize_loop ''say '' ([], [], False)) @
           [fst (snd (tokenize_loop ''say '' ([], [], False))) @ CHR 0x22 # ''hello world'']"
    by (rule unterminated_quote_is_flushed)
  then show ?thesis by (simp add: isspace_def)
qed

text \<open>
  As first stated (the partial token is dropped) C2 fails: the line \<open>"abc\<close> has an
  unterminated quote, and the token \<open>"abc\<close> accumulated after it is in the token
  sequence.
\<close>

theorem unterminated_quote_not_dropped:
  "simple_tokenize [CHR 0x22, CHR ''a'', CHR ''b'', CHR ''c''] =
     [[CHR 0x22, CHR ''a'', CHR ''b'', CHR ''c'']]"
  by (simp add: simple_tokenize_def isspace_def)

section \<open>Arithmetic\<close>

lemma pop_numeric_snoc:
  "as_numeric fp v = Inr x \<Longrightarrow>
     pop_numeric fp (I\<lparr>stack := s @ [v]\<rparr>) = Return x (I\<lparr>stack := s\<rparr>)"
  by (cases "wvalue v")
     (auto simp add: as_numeric_def pop_numeric_def get_int64_def get_double_def split: if_splits)

lemma pop_numeric_two:
  assumes "as_numeric fp a = Inr x" and "as_numeric fp b = Inr y"
  shows "pop_numeric fp (I\<lparr>stack := s @ [a, b]\<rparr>) = Return y (I\<lparr>stack := s @ [a]\<rparr>)"
    and "pop_numeric fp (I\<lparr>stack := s @ [a]\<rparr>) = Return x (I\<lparr>stack := s\<rparr>)"
  using pop_numeric_snoc [OF assms(2), where I = I and s = "s @ [a]"]
        pop_numeric_snoc [OF assms(1), where I = I and s = s]
  by simp_all

lemma run_arith_two:
  assumes "as_numeric fp a = Inr x" and "as_numeric fp b = Inr y"
  shows "run_add fp (I\<lparr>stack := s @ [a, b]\<rparr>) =
           Return () (I\<lparr>stack := s @ [\<lparr>wtype = Double, wvalue = Dbl (d_add fp x y), wunit = None\<rparr>]\<rparr>)"
    and "run_sub fp (I\<lparr>stack := s @ [a, b]\<rparr>) =
           Return () (I\<lparr>stack := s @ [\<lparr>wtype = Double, wvalue = Dbl (d_sub fp x y), wunit = None\<rparr>]\<rparr>)"
    and "run_mul fp (I\<lparr>stack := s @ [a, b]\<rparr>) =
           Return () (I\<lparr>stack := s @ [\<lparr>wtype = Double, wvalue = Dbl (d_mul fp x y), wunit = None\<rparr>]\<rparr>)"
  by (simp_all add: run_add_def run_sub_def run_mul_def pop_numeric_two [OF assms] push_def
        make_double_def WofValue_default_def)

lemma run_div_two:
  assumes "as_numeric fp a = Inr x" and "as_numeric fp b = Inr y"
  shows "run_div fp (I\<lparr>stack := s @ [a, b]\<rparr>) =
           (if d_eq fp y (d_zero fp)
            then Throw (runtime_error ''division by zero'') (I\<lparr>stack := s\<rparr>)
            else Return () (I\<lparr>stack :=
                   s @ [\<lparr>wtype = Double, wvalue = Dbl (d_div fp x y), wunit = None\<rparr>]\<rparr>))"
  by (simp add: run_div_def pop_numeric_two [OF assms] push_def make_double_def
        WofValue_default_def error_def)

lemma line_5_3_plus:
  "exec_line plug fp ''5 3 +'' WoflangInterpreter =
     Return () (WoflangInterpreter\<lparr>stack :=
        [\<lparr>wtype = Double, wvalue = Dbl (d_add fp (d_of_int fp 5) (d_of_int fp 3)), wunit = None\<rparr>]\<rparr>)"
  by (simp add: line_eval)

lemma binary64_5_plus_3:
  "d_add binary64_ops (d_of_int binary64_ops 5) (d_of_int binary64_ops 3) = d_of_int binary64_ops 8"
  by (simp add: b64_eval)

text \<open>
  C3, as the code has it: with two numeric operands \<open>a\<close> (below) and \<open>b\<close> (on top),
  Integer or Double in any combination, each of \<open>+\<close>, \<open>-\<close> and \<open>*\<close> replaces them
  by one Double-tagged value, the result on their \<open>double\<close> conversions; \<open>/\<close> does the
  same when the divisor does not compare equal to \<open>0.0\<close>. The line \<open>5 3 +\<close> on a new
  interpreter leaves exactly one value, the Double \<open>double(5) + double(3)\<close>, which in
  binary64 is 8.
\<close>

theorem arithmetic_pushes_double:
  assumes "as_numeric fp a = Inr x" and "as_numeric fp b = Inr y"
  shows "call plug fp op_add (I\<lparr>stack := s @ [a, b]\<rparr>) =
           Return () (I\<lparr>stack := s @ [\<lparr>wtype = Double, wvalue = Dbl (d_add fp x y), wunit = None\<rparr>]\<rparr>) \<and>
         call plug fp op_sub (I\<lparr>stack := s @ [a, b]\<rparr>) =
           Return () (I\<lparr>stack := s @ [\<lparr>wtype = Double, wvalue = Dbl (d_sub fp x y), wunit = None\<rparr>]\<rparr>) \<and>
         call plug fp op_mul (I\<lparr>stack := s @ [a, b]\<rparr>) =
           Return () (I\<lparr>stack := s @ [\<lparr>wtype = Double, wvalue = Dbl (d_mul fp x y), wunit = None\<rparr>]\<rparr>) \<and>
         (\<not> d_eq fp y (d_zero fp) \<longrightarrow>
          call plug fp op_div (I\<lparr>stack := s @ [a, b]\<rparr>) =
           Return () (I\<lparr>stack := s @ [\<lparr>wtype = Double, wvalue = Dbl (d_div fp x y), wunit = None\<rparr>]\<rparr>)) \<and>
         exec_line plug fp ''5 3 +'' WoflangInterpreter =
           Return () (WoflangInterpreter\<lparr>stack :=
             [\<lparr>wtype = Double, wvalue = Dbl (d_add fp (d_of_int fp 5) (d_of_int fp 3)), wunit = None\<rparr>]\<rparr>) \<and>
         d_add binary64_ops (d_of_int binary64_ops 5) (d_of_int binary64_ops 3) =
           d_of_int binary64_ops 8"
  by (simp add: call_def run_arith_two [OF assms] run_div_two [OF assms] line_5_3_plus
        binary64_5_plus_3)

lemma binary64_7_2:
  "d_add binary64_ops (b64_of_int 7) (b64_of_int 2) = d_of_int binary64_ops 9"
  "d_sub binary64_ops (b64_of_int 7) (b64_of_int 2) = d_of_int binary64_ops 5"
  "d_mul binary64_ops (b64_of_int 7) (b64_of_int 2) = d_of_int binary64_ops 14"
  "d_div binary64_ops (b64_of_int 7) (b64_of_int 2) = Finite False (7 * 2 ^ 50) (- 51)"
  by (simp_all add: b64_eval)

text \<open>
  On the stack \<open>[7, 2]\<close> of two Integers, in binary64: \<open>+\<close> gives 9, \<open>-\<close> gives 5,
  \<open>*\<close> gives 14 and \<open>/\<close> gives 3.5, each Double-tagged.
\<close>

theorem arithmetic_pushes_double_witness:
  "call no_plugins binary64_ops op_add (WoflangInterpreter\<lparr>stack := [make_int 7, make_int 2]\<rparr>) =
     Return () (WoflangInterpreter\<lparr>stack := [make_double (d_of_int binary64_ops 9)]\<rparr>) \<and>
   call no_plugins binary64_ops op_sub (WoflangInterpreter\<lparr>stack := [make_int 7, make_int 2]\<rparr>) =
     Return () (WoflangInterpreter\<lparr>stack := [make_double (d_of_int binary64_ops 5)]\<rparr>) \<and>
   call no_plugins binary64_ops op_mul (WoflangInterpreter\<lparr>stack := [make_int 7, make_int 2]\<rparr>) =
     Return () (WoflangInterpreter\<lparr>stack := [make_double (d_of_int binary64_ops 14)]\<rparr>) \<and>
   call no_plugins binary64_ops op_div (WoflangInterpreter\<lparr>stack := [make_int 7, make_int 2]\<rparr>) =
     Return () (WoflangInterpreter\<lparr>stack := [make_double (Finite False (7 * 2 ^ 50) (- 51))]\<rparr>)"
proof -
  have a: "as_numeric binary64_ops (make_int 7) = Inr (b64_of_int 7)"
    and b: "as_numeric binary64_ops (make_int 2) = Inr (b64_of_int 2)"
    by (simp_all add: as_numeric_def make_int_def WofValue_default_def get_int64_def binary64_ops_def)
  have nz: "\<not> d_eq binary64_ops (b64_of_int 2) (d_zero binary64_ops)"
    by (simp add: b64_eval)
  show ?thesis
    using arithmetic_pushes_double [OF a b, where plug = no_plugins and I = WoflangInterpreter
        and s = "[]"] nz
    by (simp add: binary64_7_2 make_double_def WofValue_default_def)
qed

text \<open>
  As first stated (for every pair of numeric operands) C3 fails for \<open>/\<close>: the
  operands 5 and 0 of the line \<open>5 0 /\<close> are numeric, and the operator throws instead
  of pushing a Double; the stack is left empty.
\<close>

theorem division_by_zero_pushes_nothing:
  "exec_line no_plugins binary64_ops ''5 0 /'' WoflangInterpreter =
     Throw (runtime_error ''division by zero'') WoflangInterpreter"
  by (simp add: line_eval b64_eval)

text \<open>
  C4, as the code has it: when the two values on top of the stack are numeric and the top
  one compares equal to \<open>0.0\<close>, \<open>/\<close> pops both, throws the runtime error
  "division by zero" and pushes nothing: neither operand and no quotient is on the
  stack afterwards.
\<close>

theorem division_by_zero_raises:
  assumes "as_numeric fp a = Inr x" and "as_numeric fp b = Inr y"
    and "d_eq fp y (d_zero fp)"
  shows "call plug fp op_div (I\<lparr>stack := s @ [a, b]\<rparr>) =
           Throw (runtime_error ''division by zero'') (I\<lparr>stack := s\<rparr>)"
  by (simp add: call_def run_div_two [OF assms(1,2)] assms(3))

text \<open>Dividing the Double 2.5 by the Double \<open>-0.0\<close>, above a String that stays.\<close>

theorem division_by_zero_raises_witness:
  "call no_plugins binary64_ops op_div
     (WoflangInterpreter\<lparr>stack := [make_string ''kept'', make_double (Finite False (5 * 2 ^ 50) (- 51)),
        make_double (Finite True 0 (- 1074))]\<rparr>) =
   Throw (runtime_error ''division by zero'') (WoflangInterpreter\<lparr>stack := [make_string ''kept'']\<rparr>)"
proof -
  have a: "as_numeric binary64_ops (make_double (Finite False (5 * 2 ^ 50) (- 51))) =
             Inr (Finite False (5 * 2 ^ 50) (- 51))"
    and b: "as_numeric binary64_ops (make_double (Finite True 0 (- 1074))) =
             Inr (Finite True 0 (- 1074))"
    by (simp_all add: as_numeric_def make_double_def WofValue_default_def get_double_def)
  have z: "d_eq binary64_ops (Finite True 0 (- 1074)) (d_zero binary64_ops)"
    by (simp add: binary64_ops_def b64_eq_def)
  show ?thesis
    using division_by_zero_raises [OF a b z, where plug = no_plugins and I = WoflangInterpreter
        and s = "[make_string ''kept'']"]
    by simp
qed

text \<open>
  As first stated (for every stack with a numeric zero on top) C4 fails on a stack of
  one value: on the line \<open>0 /\<close> the top value is the number zero, the second pop
  finds the stack empty, and the error is "stack underflow", not "division by zero".
\<close>

theorem division_underflows_first:
  "exec_line no_plugins binary64_ops ''0 /'' WoflangInterpreter =
     Throw (runtime_error ''stack underflow'') WoflangInterpreter"
  by (simp add: line_eval b64_eval)

section \<open>Integer literals\<close>

subsection \<open>Digits\<close>

lemma digit_char_val: "isdigit c \<Longrightarrow> digit_char (digit_val c) = c"
  by (simp add: isdigit_def digit_char_def digit_val_def)

lemma digit_val_char: "d < 10 \<Longrightarrow> digit_val (digit_char d) = d"
  by (simp add: digit_char_def digit_val_def)

lemma isdigit_digit_char: "d < 10 \<Longrightarrow> isdigit (digit_char d)"
  by (simp add: digit_char_def isdigit_def)

lemma digit_val_less: "isdigit c \<Longrightarrow> digit_val c < 10"
  by (auto simp add: isdigit_def digit_val_def)

lemma digit_char_0: "digit_char 0 = CHR ''0''"
proof -
  have "char_of (of_char (CHR ''0'') :: nat) = CHR ''0''" by (rule char_of_char)
  then show ?thesis by (simp add: digit_char_def)
qed

lemma digit_val_0: "digit_val (CHR ''0'') = 0"
  by (simp add: digit_val_def)

lemma digit_val_zero: "isdigit c \<Longrightarrow> digit_val c = 0 \<longleftrightarrow> c = CHR ''0''"
  using digit_char_val [of c] digit_char_0 digit_val_0 by auto

lemma digit_char_zero: "d < 10 \<Longrightarrow> digit_char d = CHR ''0'' \<longleftrightarrow> d = 0"
  using digit_val_char [of d] digit_char_0 digit_val_0 by auto

lemma isdigit_not_special:
  "isdigit c \<Longrightarrow>
     c \<noteq> CHR ''+'' \<and> c \<noteq> CHR ''-'' \<and> c \<noteq> CHR ''#'' \<and> c \<noteq> CHR 0x22 \<and> \<not> isspace c"
  by (auto simp add: isdigit_def isspace_def)

subsection \<open>Printing after parsing\<close>

lemma digits_val_snoc: "digits_val (ds @ [c]) = digits_val ds * 10 + digit_val c"
  by (simp add: digits_val_def)

lemma digits_val_pos:
  "list_all isdigit ds \<Longrightarrow> ds \<noteq> [] \<Longrightarrow> hd ds \<noteq> CHR ''0'' \<Longrightarrow> 0 < digits_val ds"
proof (induction ds rule: rev_induct)
  case Nil
  then show ?case by simp
next
  case (snoc c ds)
  show ?case
  proof (cases "ds = []")
    case True
    with snoc.prems show ?thesis
      using digit_val_zero [of c] by (simp add: digits_val_def)
  next
    case False
    with snoc have "0 < digits_val ds" by simp
    then show ?thesis by (simp add: digits_val_snoc)
  qed
qed

lemma show_nat_digits_val:
  "list_all isdigit ds \<Longrightarrow> ds \<noteq> [] \<Longrightarrow> hd ds \<noteq> CHR ''0'' \<or> ds = ''0'' \<Longrightarrow>
     show_nat (digits_val ds) = ds"
proof (induction ds rule: rev_induct)
  case Nil
  then show ?case by simp
next
  case (snoc c ds)
  have c: "isdigit c" using snoc.prems(1) by simp
  show ?case
  proof (cases "ds = []")
    case True
    then show ?thesis
      using c by (simp add: digits_val_def show_nat.simps [of "digit_val c"] digit_val_less digit_char_val)
  next
    case False
    then have hd: "hd ds \<noteq> CHR ''0''" using snoc.prems(3) by auto
    have pos: "0 < digits_val ds"
      using digits_val_pos snoc.prems(1) False hd by simp
    have ih: "show_nat (digits_val ds) = ds"
      using snoc.IH snoc.prems(1) False hd by simp
    have lt: "digit_val c < 10" using c by (rule digit_val_less)
    have "show_nat (digits_val ds * 10 + digit_val c) =
            show_nat ((digits_val ds * 10 + digit_val c) div 10) @
            [digit_char ((digits_val ds * 10 + digit_val c) mod 10)]"
      using pos by (subst show_nat.simps) simp
    also have "\<dots> = ds @ [c]"
      using lt ih c by (simp add: digit_char_val)
    finally show ?thesis by (simp add: digits_val_snoc)
  qed
qed

lemma show_nat_not_Nil: "show_nat n \<noteq> []"
  by (subst show_nat.simps) simp

lemma hd_show_nat: "hd (show_nat n) = CHR ''0'' \<longleftrightarrow> n = 0"
proof (induction n rule: show_nat.induct)
  case (1 n)
  show ?case
  proof (cases "n < 10")
    case True
    then have "show_nat n = [digit_char n]" by (subst show_nat.simps) simp
    moreover have "digit_char n = CHR ''0'' \<longleftrightarrow> n = 0"
      using True by (rule digit_char_zero)
    ultimately show ?thesis by simp
  next
    case False
    then have "show_nat n = show_nat (n div 10) @ [digit_char (n mod 10)]"
      by (subst show_nat.simps) simp
    then have "hd (show_nat n) = hd (show_nat (n div 10))"
      by (simp add: show_nat_not_Nil)
    with 1 False show ?thesis by auto
  qed
qed

lemma list_all_isdigit_show_nat: "list_all isdigit (show_nat n)"
proof (induction n rule: show_nat.induct)
  case (1 n)
  show ?case
  proof (cases "n < 10")
    case True
    then show ?thesis by (subst show_nat.simps) (simp add: isdigit_digit_char)
  next
    case False
    with 1 show ?thesis by (subst show_nat.simps) (simp add: isdigit_digit_char)
  qed
qed

lemma show_nat_digits_val_iff:
  assumes "list_all isdigit ds" and "ds \<noteq> []"
  shows "show_nat (digits_val ds) = ds \<longleftrightarrow> hd ds \<noteq> CHR ''0'' \<or> ds = ''0''"
proof
  assume eq: "show_nat (digits_val ds) = ds"
  show "hd ds \<noteq> CHR ''0'' \<or> ds = ''0''"
  proof (cases "hd ds = CHR ''0''")
    case True
    then have "digits_val ds = 0" using eq hd_show_nat [of "digits_val ds"] by simp
    then have "show_nat 0 = ds" using eq by simp
    then show ?thesis by (simp add: show_nat.simps [of 0] digit_char_0)
  qed simp
next
  assume "hd ds \<noteq> CHR ''0'' \<or> ds = ''0''"
  with assms show "show_nat (digits_val ds) = ds" by (rule show_nat_digits_val)
qed

subsection \<open>Integer tokens\<close>

lemma is_integer_token_cases:
  assumes "is_integer_token token"
  obtains (signed) c body where "token = c # body" "c = CHR ''+'' \<or> c = CHR ''-''"
      "body \<noteq> []" "list_all isdigit body"
  | (plain) "token \<noteq> []" "isdigit (hd token)" "list_all isdigit token"
proof (cases token)
  case Nil
  with assms show ?thesis by (simp add: is_integer_token_def)
next
  case (Cons c body)
  show ?thesis
  proof (cases "c = CHR ''+'' \<or> c = CHR ''-''")
    case True
    with assms Cons have "body \<noteq> []" "list_all isdigit body"
      by (auto simp add: is_integer_token_def split: if_splits)
    with Cons True show ?thesis by (rule signed)
  next
    case False
    with assms Cons have "list_all isdigit token"
      by (auto simp add: is_integer_token_def split: if_splits)
    with Cons show ?thesis by (intro plain) auto
  qed
qed

lemma stoll_signed:
  assumes "c = CHR ''+'' \<or> c = CHR ''-''" and "body \<noteq> []" and "list_all isdigit body"
  shows "stoll (c # body) =
     (let v = (if c = CHR ''-'' then - int (digits_val body) else int (digits_val body))
      in if v < - (2 ^ 63) \<or> 2 ^ 63 - 1 < v then Inl (out_of_range ''stoll'')
         else Inr (word_of_int v))"
proof -
  have tw: "takeWhile isdigit body = body"
    using assms(3) by (simp add: takeWhile_eq_all_conv list_all_iff)
  have sp: "\<not> isspace c" using assms(1) by (auto simp add: isspace_def)
  show ?thesis
    using assms(1,2) by (auto simp add: stoll_def Let_def tw sp)
qed

lemma stoll_plain:
  assumes "token \<noteq> []" and "list_all isdigit token"
  shows "stoll token =
     (let v = int (digits_val token)
      in if v < - (2 ^ 63) \<or> 2 ^ 63 - 1 < v then Inl (out_of_range ''stoll'')
         else Inr (word_of_int v))"
proof -
  obtain c cs where t: "token = c # cs" using assms(1) by (cases token) auto
  have tw: "takeWhile isdigit (c # cs) = c # cs"
    using assms(2) unfolding t by (simp add: takeWhile_eq_all_conv list_all_iff)
  have c: "isdigit c" using assms(2) t by simp
  then have sp: "c \<noteq> CHR ''+''" "c \<noteq> CHR ''-''" "\<not> isspace c"
    using isdigit_not_special [of c] by simp_all
  show ?thesis
    unfolding t stoll_def Let_def using sp tw by simp
qed

lemma stoll_integer_token:
  assumes "is_integer_token token"
  shows "stoll token =
     (if token_value token < - (2 ^ 63) \<or> 2 ^ 63 - 1 < token_value token
      then Inl (out_of_range ''stoll'') else Inr (word_of_int (token_value token)))"
  using assms
proof (cases rule: is_integer_token_cases)
  case (signed c body)
  then show ?thesis
    using stoll_signed [of c body] by (auto simp add: token_value_def Let_def)
next
  case plain
  then have "hd token \<noteq> CHR ''+''" "hd token \<noteq> CHR ''-''"
    using isdigit_not_special by blast+
  then show ?thesis
    using plain stoll_plain [of token] by (simp add: token_value_def Let_def)
qed

lemma dispatch_integer_token:
  assumes "is_integer_token token"
  shows "dispatch_token plug fp token I =
           bind (lift (stoll token) I) (\<lambda>v I'. Return () (push (make_int v) I'))"
proof -
  have "token \<noteq> []" "hd token \<noteq> CHR ''#''" "hd token \<noteq> CHR 0x22"
    using assms isdigit_not_special [of "hd token"]
    by (cases rule: is_integer_token_cases; auto)+
  then show ?thesis using assms by (simp add: dispatch_token_def)
qed

lemma show_int_token_value:
  assumes "is_integer_token token"
  shows "show_int (token_value token) = token \<longleftrightarrow> canonical_integer_token token"
  using assms
proof (cases rule: is_integer_token_cases)
  case (signed c body)
  have nn: "show_nat n \<noteq> []" for n by (rule show_nat_not_Nil)
  have dg: "isdigit (hd (show_nat n))" for n
    using list_all_isdigit_show_nat [of n] nn [of n] by (cases "show_nat n") auto
  show ?thesis
  proof (cases "c = CHR ''-''")
    case True
    show ?thesis
    proof (cases "digits_val body = 0")
      case z: True
      then have "hd body = CHR ''0''"
        using digits_val_pos [of body] signed by auto
      moreover have "show_int (token_value token) = show_nat 0"
        using z signed True by (simp add: show_int_def token_value_def)
      moreover have "hd (show_nat 0) \<noteq> CHR ''-''"
        using dg [of 0] isdigit_not_special by blast
      ultimately show ?thesis
        using signed True by (auto simp add: canonical_integer_token_def)
    next
      case nz: False
      then have "show_int (token_value token) = CHR ''-'' # show_nat (digits_val body)"
        using signed True by (simp add: show_int_def token_value_def)
      moreover have "show_nat (digits_val body) = body \<longleftrightarrow> hd body \<noteq> CHR ''0'' \<or> body = ''0''"
        using signed by (intro show_nat_digits_val_iff)
      moreover have "body \<noteq> ''0''" using nz by (auto simp add: digits_val_def digit_val_0)
      ultimately show ?thesis
        using signed True by (auto simp add: canonical_integer_token_def)
    qed
  next
    case False
    then have c: "c = CHR ''+''" using signed by simp
    have "show_int (token_value token) = show_nat (digits_val body)"
      using signed c by (simp add: show_int_def token_value_def)
    moreover have "hd (show_nat (digits_val body)) \<noteq> CHR ''+''"
      using dg [of "digits_val body"] isdigit_not_special by blast
    ultimately show ?thesis
      using signed c by (auto simp add: canonical_integer_token_def)
  qed
next
  case plain
  have sp: "hd token \<noteq> CHR ''+''" "hd token \<noteq> CHR ''-''"
    using plain(2) isdigit_not_special by blast+
  then have "show_int (token_value token) = show_nat (digits_val token)"
    by (simp add: show_int_def token_value_def)
  moreover have "show_nat (digits_val token) = token \<longleftrightarrow> hd token \<noteq> CHR ''0'' \<or> token = ''0''"
    using plain by (intro show_nat_digits_val_iff)
  ultimately show ?thesis
    using plain sp by (auto simp add: canonical_integer_token_def)
qed

text \<open>
  C5, as the code has it: a token of the integer grammar whose value fits in 64 bits
  (\<open>stoll\<close> returns) is pushed as an Integer, and the text of that Integer is the
  decimal rendering of its value: it equals the original token exactly when the token is
  in canonical form, with no plus sign and no leading zero (and not \<open>-0\<close>). No decimal
  point is ever added.
\<close>

theorem integer_token_roundtrip:
  assumes "is_integer_token token" and "stoll token = Inr v"
  shows "dispatch_token plug fp token I = Return () (push (make_int v) I) \<and>
         to_string fp (make_int v) = Inr (show_int (sint v)) \<and>
         (show_int (sint v) = token \<longleftrightarrow> canonical_integer_token token)"
proof -
  have range: "- (2 ^ 63) \<le> token_value token \<and> token_value token \<le> 2 ^ 63 - 1"
    and v: "v = word_of_int (token_value token)"
    using assms by (auto simp add: stoll_integer_token split: if_splits)
  have "sint v = token_value token"
    unfolding v using range by (simp add: sint_sbintrunc' signed_take_bit_int_eq_self)
  then have "show_int (sint v) = token \<longleftrightarrow> canonical_integer_token token"
    using assms(1) by (simp add: show_int_token_value)
  moreover have "dispatch_token plug fp token I = Return () (push (make_int v) I)"
    using assms by (simp add: dispatch_integer_token)
  moreover have "to_string fp (make_int v) = Inr (show_int (sint v))"
    by (simp add: to_string_def make_int_def WofValue_default_def get_int64_def)
  ultimately show ?thesis by blast
qed

text \<open>The canonical token \<open>-42\<close> is pushed as the Integer \<open>-42\<close>, whose text is \<open>-42\<close>.\<close>

theorem integer_token_roundtrip_witness:
  "dispatch_token no_plugins binary64_ops ''-42'' WoflangInterpreter =
     Return () (push (make_int (- 42)) WoflangInterpreter) \<and>
   to_string binary64_ops (make_int (- 42)) = Inr ''-42''"
proof -
  have t: "is_integer_token ''-42''"
    by (simp add: is_integer_token_def isdigit_def)
  have s: "stoll ''-42'' = Inr (- 42)"
    by (simp add: stoll_def digits_val_def Let_def char_eval)
  have c: "canonical_integer_token ''-42''"
    by (simp add: canonical_integer_token_def)
  show ?thesis
    using integer_token_roundtrip [OF t s, where plug = no_plugins and fp = binary64_ops
        and I = WoflangInterpreter] c
    by simp
qed

text \<open>
  As first stated (for every token of the integer grammar) C5 fails for a token with a
  plus sign: \<open>+5\<close> matches the integer grammar, is pushed as the Integer 5, and the
  text of that value is \<open>5\<close>.
\<close>

theorem plus_sign_is_not_rendered:
  "is_integer_token ''+5'' \<and>
   dispatch_token no_plugins binary64_ops ''+5'' WoflangInterpreter =
     Return () (push (make_int 5) WoflangInterpreter) \<and>
   to_string binary64_ops (make_int 5) = Inr ''5''"
  by (simp add: line_eval to_string_def show_int_def show_nat.simps)

section \<open>The operator table\<close>

subsection \<open>What keeps an entry of the table\<close>

text \<open>
  Nothing but \<open>register_op\<close> writes to the table: the built-in operators, the pushes of
  literals and symbols and printing leave every entry as it is, whether they return or
  throw. A plugin closure holds the interpreter and could register anything, so for the
  closures the statements ask that they leave the entry of the one name alone.
\<close>

lemma ops_bind:
  assumes "ops (state_of m) nm = c" and "\<And>a s. ops s nm = c \<Longrightarrow> ops (state_of (f a s)) nm = c"
  shows "ops (state_of (bind m f)) nm = c"
  using assms by (cases m) simp_all

lemma ops_lift: "ops (state_of (lift r s)) = ops s"
  by (cases r) simp_all

lemma ops_pop: "ops (state_of (pop K)) = ops K"
  by (simp add: pop_def error_def)

lemma ops_pop_numeric: "ops (state_of (pop_numeric fp K)) nm = ops K nm"
  unfolding pop_numeric_def
  by (rule ops_bind) (simp_all add: ops_pop ops_lift error_def)

lemma ops_two_pops:
  assumes "\<And>a b s. ops (state_of (g a b s)) nm = ops s nm"
  shows "ops (state_of (bind (pop_numeric fp K) (\<lambda>b I1.
           bind (pop_numeric fp I1) (\<lambda>a I2. g a b I2)))) nm = ops K nm"
proof (rule ops_bind)
  show "ops (state_of (pop_numeric fp K)) nm = ops K nm"
    by (rule ops_pop_numeric)
  show "ops (state_of (bind (pop_numeric fp s) (\<lambda>a I2. g a b I2))) nm = ops K nm"
    if "ops s nm = ops K nm" for b s
  proof (rule ops_bind)
    show "ops (state_of (pop_numeric fp s)) nm = ops K nm"
      using that by (simp add: ops_pop_numeric)
    show "ops (state_of (g a b t)) nm = ops K nm" if "ops t nm = ops K nm" for a t
      using that by (simp add: assms)
  qed
qed

lemma ops_arith:
  "ops (state_of (run_add fp K)) nm = ops K nm" "ops (state_of (run_sub fp K)) nm = ops K nm"
  "ops (state_of (run_mul fp K)) nm = ops K nm" "ops (state_of (run_div fp K)) nm = ops K nm"
  unfolding run_add_def run_sub_def run_mul_def run_div_def
  by (rule ops_two_pops, simp add: push_def error_def)+

lemma ops_stack_ops:
  "ops (state_of (run_dup K)) nm = ops K nm" "ops (state_of (run_drop K)) nm = ops K nm"
  "ops (state_of (run_swap K)) nm = ops K nm"
  by (simp_all add: run_dup_def run_drop_def run_swap_def push_def pop_def error_def Let_def)

lemma ops_print: "ops (state_of (run_print fp K)) nm = ops K nm"
  unfolding run_print_def
  by (auto intro!: ops_bind simp add: ops_lift put_def)

lemma ops_print_cells: "ops (state_of (print_cells fp i vs K)) nm = ops K nm"
proof (induction vs arbitrary: i K)
  case Nil
  show ?case by simp
next
  case (Cons v vs)
  have "ops (state_of (print_cells fp i (v # vs) K)) nm = ops (put (''  ['' @ show_nat i @ ''] '') K) nm"
    unfolding print_cells.simps
    by (rule ops_bind) (simp_all add: ops_lift Cons.IH put_def)
  then show ?case by (simp add: put_def)
qed

lemma ops_print_stack: "ops (state_of (print_stack fp K)) nm = ops K nm"
  by (simp add: print_stack_def ops_print_cells put_def)

lemma ops_call:
  assumes "\<And>k K. ops (state_of (plug k K)) nm = ops K nm"
  shows "ops (state_of (call plug fp handler K)) nm = ops K nm"
  by (cases handler)
     (simp_all add: call_def ops_arith ops_stack_ops ops_print ops_print_stack assms)

lemma ops_push: "ops (push v K) = ops K"
  by (simp add: push_def)

lemma ops_push_literal:
  "ops (state_of (bind (lift r K) (\<lambda>v I'. Return () (push (f v) I')))) nm = ops K nm"
  by (cases r) (simp_all add: ops_push)

lemma ops_dispatch_token:
  assumes "\<And>k K. ops (state_of (plug k K)) nm = ops K nm"
  shows "ops (state_of (dispatch_token plug fp token K)) nm = ops K nm"
  unfolding dispatch_token_def
  by (simp add: ops_push ops_push_literal ops_call [OF assms] split: option.splits)

lemma ops_dispatch_all:
  assumes "\<And>k K. ops (state_of (plug k K)) nm = ops K nm"
  shows "ops (state_of (dispatch_all plug fp tokens K)) nm = ops K nm"
proof (induction tokens arbitrary: K)
  case Nil
  show ?case by simp
next
  case (Cons tok tokens)
  have "ops (state_of (dispatch_all plug fp (tok # tokens) K)) nm =
          ops (state_of (dispatch_token plug fp tok K)) nm"
    by (cases "dispatch_token plug fp tok K") (simp_all add: Cons.IH)
  then show ?case by (simp add: ops_dispatch_token [OF assms])
qed

lemma ops_exec_line:
  assumes "\<And>k K. ops (state_of (plug k K)) nm = ops K nm"
  shows "ops (state_of (exec_line plug fp line K)) nm = ops K nm"
  by (simp add: exec_line_def Let_def ops_dispatch_all [OF assms])

lemma ops_perform:
  assumes "\<And>k K. ops (state_of (plug k K)) nm = ops K nm" and "leaves_name nm acts"
  shows "ops (perform plug fp acts K) nm = ops K nm"
  using assms(2)
proof (induction acts arbitrary: K)
  case Nil
  show ?case by simp
next
  case (Cons a acts)
  then have rest: "leaves_name nm acts" by (simp add: leaves_name_def)
  show ?case
  proof (cases a)
    case (ExecLine line)
    then show ?thesis
      using Cons.IH [OF rest] by (simp add: ops_exec_line [OF assms(1)])
  next
    case (RegisterOp n handler)
    then have "n \<noteq> nm" using Cons.prems by (simp add: leaves_name_def)
    then show ?thesis
      using RegisterOp Cons.IH [OF rest] by (simp add: register_op_def)
  qed
qed

subsection \<open>Last write wins\<close>

text \<open>
  C6, as the code has it: registering a handler under a name never fails and returns
  nothing but the updated interpreter; a second registration under the same name replaces
  the first without a trace. The table then holds the newer handler and keeps it through
  whatever is done next: lines executed, whether they return or throw, and operators
  registered under other names, as long as no plugin closure that runs changes the entry.
  In the interpreter \<open>J\<close> so reached, dispatching the name runs the newer handler on
  \<open>J\<close>: the built-in operator it names, or the plugin's closure. The name is a token
  for which dispatch reaches the table: not a comment, not a quoted string, not a numeric
  literal.
\<close>

theorem register_op_last_write_wins:
  assumes "\<not> (nm \<noteq> [] \<and> hd nm = CHR ''#'')"
    and "\<not> (2 \<le> length nm \<and> hd nm = CHR 0x22 \<and> last nm = CHR 0x22)"
    and "\<not> is_integer_token nm" and "\<not> is_float_token nm"
    and "\<And>k K. ops (state_of (plug k K)) nm = ops K nm"
    and "leaves_name nm acts"
    and "J = perform plug fp acts (register_op nm newer (register_op nm older I))"
  shows "register_op nm newer (register_op nm older I) = register_op nm newer I \<and>
         ops J nm = Some newer \<and>
         dispatch_token plug fp nm J =
           (case newer of
              op_add \<Rightarrow> run_add fp J
            | op_sub \<Rightarrow> run_sub fp J
            | op_mul \<Rightarrow> run_mul fp J
            | op_div \<Rightarrow> run_div fp J
            | op_dup \<Rightarrow> run_dup J
            | op_drop \<Rightarrow> run_drop J
            | op_swap \<Rightarrow> run_swap J
            | op_print \<Rightarrow> run_print fp J
            | op_dot_s \<Rightarrow> print_stack fp J
            | op_plugin k \<Rightarrow> plug k J)"
proof -
  have entry: "ops J nm = Some newer"
    unfolding assms(7) by (simp add: ops_perform [OF assms(5,6)] register_op_def)
  then have "dispatch_token plug fp nm J = call plug fp newer J"
    unfolding dispatch_token_def using assms(1-4) by (simp only: if_False option.case)
  then show ?thesis
    using entry by (simp add: register_op_def call_def)
qed

text \<open>
  A plugin registers its stack-clearing closure under \<open>+\<close>, over the built-in, which
  had itself been registered at construction. Another closure is then registered under
  \<open>neg\<close> and the line \<open>1 2\<close> is executed: \<open>+\<close> still runs the plugin's closure,
  and the stack is empty.
\<close>

theorem register_op_last_write_wins_witness:
  "dispatch_token clearing_plugin binary64_ops ''+''
     (perform clearing_plugin binary64_ops [RegisterOp ''neg'' (op_plugin 1), ExecLine ''1 2'']
        (register_op ''+'' (op_plugin 0) (register_op ''+'' op_add WoflangInterpreter))) =
   Return () (register_op ''neg'' (op_plugin 1) (register_op ''+'' (op_plugin 0) WoflangInterpreter))"
proof -
  have keep: "ops (state_of (clearing_plugin k K)) ''+'' = ops K ''+''" for k and K :: "binary64 Interp"
    by (simp add: clearing_plugin_def clear_stack_def)
  have acts: "leaves_name ''+'' [RegisterOp ''neg'' (op_plugin 1), ExecLine ''1 2'']"
    by (simp add: leaves_name_def)
  have J: "perform clearing_plugin binary64_ops [RegisterOp ''neg'' (op_plugin 1), ExecLine ''1 2'']
        (register_op ''+'' (op_plugin 0) (register_op ''+'' op_add WoflangInterpreter)) =
      (register_op ''neg'' (op_plugin 1) (register_op ''+'' (op_plugin 0) WoflangInterpreter))
        \<lparr>stack := [make_int 1, make_int 2]\<rparr>"
    by (simp add: line_eval)
  have "dispatch_token clearing_plugin binary64_ops ''+''
      ((register_op ''neg'' (op_plugin 1) (register_op ''+'' (op_plugin 0) WoflangInterpreter))
        \<lparr>stack := [make_int 1, make_int 2]\<rparr>) =
    clearing_plugin 0
      ((register_op ''neg'' (op_plugin 1) (register_op ''+'' (op_plugin 0) WoflangInterpreter))
        \<lparr>stack := [make_int 1, make_int 2]\<rparr>)"
    using register_op_last_write_wins [where nm = "''+''" and older = op_add
        and newer = "op_plugin 0" and I = WoflangInterpreter and plug = clearing_plugin
        and fp = binary64_ops and acts = "[RegisterOp ''neg'' (op_plugin 1), ExecLine ''1 2'']",
        OF _ _ _ _ keep acts J [symmetric]]
    by (simp add: is_integer_token_def is_float_token_def)
  then show ?thesis
    unfolding J
    by (simp add: clearing_plugin_def clear_stack_def register_op_def WoflangInterpreter_def)
qed

text \<open>
  As first stated (for every operator name) C6 fails for a name that dispatch takes for a
  literal: under the name \<open>5\<close> the plugin's closure replaces the built-in in the table,
  but the token \<open>5\<close> pushes the Integer 5 and runs no handler; the newest handler
  would have cleared the stack.
\<close>

theorem literal_name_is_never_run:
  "dispatch_token clearing_plugin binary64_ops ''5''
     (push (make_int 1) (register_op ''5'' (op_plugin 0) (register_op ''5'' op_add WoflangInterpreter))) =
     Return () (push (make_int 5) (push (make_int 1)
       (register_op ''5'' (op_plugin 0) (register_op ''5'' op_add WoflangInterpreter)))) \<and>
   ops (push (make_int 1) (register_op ''5'' (op_plugin 0) (register_op ''5'' op_add WoflangInterpreter)))
     ''5'' = Some (op_plugin 0) \<and>
   call clearing_plugin binary64_ops (op_plugin 0)
     (push (make_int 1) (register_op ''5'' (op_plugin 0) (register_op ''5'' op_add WoflangInterpreter))) =
     Return () (register_op ''5'' (op_plugin 0) WoflangInterpreter)"
  by (simp add: line_eval clearing_plugin_def clear_stack_def)

section \<open>Unknown tokens\<close>

text \<open>
  C7: a token that is not a comment, not a quoted string, not an integer or float literal
  and not a registered operator name is pushed as one Symbol holding the token's text, on
  top of a stack that is otherwise unchanged (as are the table and the output).
\<close>

theorem unknown_token_pushes_symbol:
  assumes "\<not> (token \<noteq> [] \<and> hd token = CHR ''#'')"
    and "\<not> (2 \<le> length token \<and> hd token = CHR 0x22 \<and> last token = CHR 0x22)"
    and "\<not> is_integer_token token" and "\<not> is_float_token token"
    and "ops I token = None"
  shows "dispatch_token plug fp token I =
           Return () (I\<lparr>stack := stack I @ [\<lparr>wtype = Symbol, wvalue = Str token, wunit = None\<rparr>]\<rparr>)"
proof -
  have "dispatch_token plug fp token I = Return () (push (make_symbol token) I)"
    unfolding dispatch_token_def using assms by (simp only: if_False option.case)
  then show ?thesis
    by (simp add: push_def make_symbol_def WofValue_default_def)
qed

text \<open>The token \<open>foo\<close> on a new interpreter, below which the Integer 1 stays.\<close>

theorem unknown_token_pushes_symbol_witness:
  "dispatch_token no_plugins binary64_ops ''foo'' (WoflangInterpreter\<lparr>stack := [make_int 1]\<rparr>) =
     Return () (WoflangInterpreter\<lparr>stack :=
       [make_int 1, \<lparr>wtype = Symbol, wvalue = Str ''foo'', wunit = None\<rparr>]\<rparr>)"
  using unknown_token_pushes_symbol [where token = "''foo''" and plug = no_plugins
      and fp = binary64_ops and I = "WoflangInterpreter\<lparr>stack := [make_int 1]\<rparr>"]
  by (simp add: is_integer_token_def is_float_token_def isdigit_def WoflangInterpreter_def
        register_op_def)

section \<open>dup and drop\<close>

lemma run_dup_nonempty:
  "stack I \<noteq> [] \<Longrightarrow> run_dup I = Return () (push (last (stack I)) I)"
  by (cases "stack I") (simp_all add: run_dup_def stack_has_def)

lemma run_drop_push: "run_drop (push v I) = Return () I"
  by (simp add: run_drop_def stack_has_def push_def pop_def)

lemma dispatch_dup_drop:
  "ops I ''dup'' = Some h \<Longrightarrow> dispatch_token plug fp ''dup'' I = call plug fp h I"
  "ops I ''drop'' = Some h \<Longrightarrow> dispatch_token plug fp ''drop'' I = call plug fp h I"
  by (simp_all add: dispatch_token_def is_integer_token_def is_float_token_def isdigit_def)

lemma tokenize_dup_drop: "simple_tokenize (trim ''dup drop'') = [''dup'', ''drop'']"
  by (simp add: simple_tokenize_def trim_def isspace_def)

lemma self_equal_binary64:
  "self_equal binary64_ops v \<longleftrightarrow>
     (case wvalue v of Dbl (NaN s) \<Rightarrow> False | _ \<Rightarrow> True) \<and>
     (case wunit v of Some u \<Rightarrow> (case scale u of NaN s \<Rightarrow> False | _ \<Rightarrow> True) | None \<Rightarrow> True)"
  by (simp add: self_equal_def binary64_ops_def b64_eq_def split: Storage.splits binary64.splits option.splits)

text \<open>
  C8, as the code has it: on a non-empty stack, with the built-in \<open>dup\<close> and \<open>drop\<close>
  in the table, \<open>dup\<close> pushes a copy of the top value and \<open>drop\<close> removes it again:
  after the line \<open>dup drop\<close> the interpreter is in the state it started from, so the
  depth is the same and the top value has the tag, the payload and the unit it had before
  \<open>dup\<close>. The structural equality of the class, \<open>operator==\<close>, calls the top value
  after the line equal to the one before exactly when every \<open>double\<close> in the value (the
  payload of a Double, the scale of a unit) compares equal to itself; in binary64 that is
  when none of them is a NaN (\<open>self_equal_binary64\<close>).
\<close>

theorem dup_drop_restores:
  assumes "stack I \<noteq> []" and "ops I ''dup'' = Some op_dup" and "ops I ''drop'' = Some op_drop"
  shows "dispatch_token plug fp ''dup'' I = Return () (I\<lparr>stack := stack I @ [last (stack I)]\<rparr>) \<and>
         dispatch_token plug fp ''drop'' (I\<lparr>stack := stack I @ [last (stack I)]\<rparr>) = Return () I \<and>
         exec_line plug fp ''dup drop'' I = Return () I \<and>
         length (stack (state_of (exec_line plug fp ''dup drop'' I))) = length (stack I) \<and>
         (WofValue_eq fp (last (stack (state_of (exec_line plug fp ''dup drop'' I)))) (last (stack I)) \<longleftrightarrow>
          self_equal fp (last (stack I)))"
proof -
  have p: "I\<lparr>stack := stack I @ [last (stack I)]\<rparr> = push (last (stack I)) I"
    by (simp add: push_def)
  have dup: "dispatch_token plug fp ''dup'' I = Return () (push (last (stack I)) I)"
    using assms(1,2) by (simp add: dispatch_dup_drop call_def run_dup_nonempty)
  have "ops (push (last (stack I)) I) ''drop'' = Some op_drop"
    using assms(3) by (simp add: push_def)
  then have drop: "dispatch_token plug fp ''drop'' (push (last (stack I)) I) = Return () I"
    by (simp add: dispatch_dup_drop call_def run_drop_push)
  have "exec_line plug fp ''dup drop'' I = dispatch_all plug fp [''dup'', ''drop''] I"
    using tokenize_dup_drop by (simp add: exec_line_def Let_def trim_def isspace_def)
  also have "\<dots> = Return () I"
    by (simp add: dup drop)
  finally have line: "exec_line plug fp ''dup drop'' I = Return () I" .
  show ?thesis
    using dup drop by (simp add: p line WofValue_eq_self)
qed

text \<open>
  On the stack \<open>[1, "two"]\<close> of a new interpreter: the stack is the same after the
  line, and \<open>operator==\<close> calls the String equal to itself.
\<close>

theorem dup_drop_restores_witness:
  "exec_line no_plugins binary64_ops ''dup drop''
     (WoflangInterpreter\<lparr>stack := [make_int 1, make_string ''two'']\<rparr>) =
   Return () (WoflangInterpreter\<lparr>stack := [make_int 1, make_string ''two'']\<rparr>) \<and>
   WofValue_eq binary64_ops (make_string ''two'') (make_string ''two'') \<and>
   self_equal binary64_ops (make_string ''two'')"
  using dup_drop_restores [where I = "WoflangInterpreter\<lparr>stack := [make_int 1, make_string ''two'']\<rparr>"
      and plug = no_plugins and fp = binary64_ops]
  by (simp add: WoflangInterpreter_def register_op_def self_equal_def make_string_def
        WofValue_default_def WofValue_eq_def Storage_eq_def)

subsection \<open>A NaN on the stack\<close>

text \<open>
  The length of a binary numeral, read off its digits, to evaluate large products; and
  the squares of \<open>10^10\<close> in binary64, the sixth of which overflows.
\<close>

lemma bits_numeral:
  "bits 0 = 0"
  "bits 1 = 1"
  "bits (numeral Num.One) = 1"
  "bits (numeral (Num.Bit0 k)) = bits (numeral k) + 1"
  "bits (numeral (Num.Bit1 k)) = bits (numeral k) + 1"
proof -
  show "bits 0 = 0" "bits 1 = 1" "bits (numeral Num.One) = 1"
    by (simp_all add: bits.simps)
  have "numeral (Num.Bit0 k) div 2 = (numeral k :: nat)"
    by simp
  then show "bits (numeral (Num.Bit0 k)) = bits (numeral k) + 1"
    by (subst bits.simps) simp
  have "numeral (Num.Bit1 k) div 2 = (numeral k :: nat)"
    by simp
  then show "bits (numeral (Num.Bit1 k)) = bits (numeral k) + 1"
    by (subst bits.simps) simp
qed

lemmas b64_numeral_eval =
  binary64_ops_def b64_of_int_def b64_add_def b64_sub_def b64_neg_def b64_mul_def b64_div_def
  b64_eq_def round_frac_def floor_log2_def bits_numeral scaled_def round_half_even_def Let_def

lemma binary64_squares:
  "b64_of_int 10000000000 = Finite False 5242880000000000 (- 19)"
  "b64_mul (Finite False 5242880000000000 (- 19)) (Finite False 5242880000000000 (- 19)) =
     Finite False 6103515625000000 14"
  "b64_mul (Finite False 6103515625000000 14) (Finite False 6103515625000000 14) =
     Finite False 8271806125530277 80"
  "b64_mul (Finite False 8271806125530277 80) (Finite False 8271806125530277 80) =
     Finite False 7596454196607839 213"
  "b64_mul (Finite False 7596454196607839 213) (Finite False 7596454196607839 213) =
     Finite False 6406665904585923 479"
  "b64_mul (Finite False 6406665904585923 479) (Finite False 6406665904585923 479) =
     Infinity False"
  "b64_sub (Infinity False) (Infinity False) = NaN True"
  by (simp_all add: b64_numeral_eval)

text \<open>
  As first stated (for every non-empty stack, the top value after is equal to the one
  before by the structural equality rule) C8 fails for a NaN. The first line below, of
  core operators only, leaves the Double \<open>inf - inf\<close> on the stack of a new
  interpreter; the line \<open>dup drop\<close> leaves that stack as it was; and \<open>operator==\<close>
  does not call the top value equal to itself.
\<close>

theorem nan_is_not_equal_to_itself:
  "exec_line no_plugins binary64_ops ''10000000000 dup * dup * dup * dup * dup * dup -''
     WoflangInterpreter =
     Return () (WoflangInterpreter\<lparr>stack := [make_double (NaN True)]\<rparr>) \<and>
   exec_line no_plugins binary64_ops ''dup drop'' (WoflangInterpreter\<lparr>stack := [make_double (NaN True)]\<rparr>) =
     Return () (WoflangInterpreter\<lparr>stack := [make_double (NaN True)]\<rparr>) \<and>
   \<not> WofValue_eq binary64_ops (make_double (NaN True)) (make_double (NaN True))"
  by (simp add: line_eval binary64_ops_def binary64_squares b64_eq_def run_mul_def run_sub_def
        run_dup_def run_drop_def stack_has_def WofValue_eq_def Storage_eq_def)

section \<open>Popping with a coercion\<close>

lemma pop_bool_never_throws:
  assumes "stack I \<noteq> []" and "tag_matches (last (stack I))"
  shows "\<exists>b. pop_bool fp I = Return b (I\<lparr>stack := butlast (stack I)\<rparr>)"
  using assms(2)
  by (cases rule: tag_matches_cases)
     (auto simp add: pop_bool_def pop_def assms(1) get_int64_def get_double_def get_string_def)

text \<open>
  C9: \<open>pop_bool\<close> on a non-empty stack returns, whatever the tag of the top value, and
  removes that value: an Integer gives \<open>payload != 0\<close>, a Double \<open>payload != 0.0\<close>,
  a String or a Symbol is true unless its text is empty, \<open>0\<close>, \<open>false\<close> or \<open>False\<close>,
  and an Unknown value gives false. The top value is any value of the class (its payload
  is the alternative its tag names, and it may carry a unit), which by \<open>wt_exec_line\<close>
  is all that the interpreter itself ever puts on the stack.
\<close>

theorem pop_bool_by_tag:
  "pop_bool fp (I\<lparr>stack := s @ [\<lparr>wtype = Integer, wvalue = Int64 i, wunit = u\<rparr>]\<rparr>) =
     Return (i \<noteq> 0) (I\<lparr>stack := s\<rparr>) \<and>
   pop_bool fp (I\<lparr>stack := s @ [\<lparr>wtype = Double, wvalue = Dbl x, wunit = u\<rparr>]\<rparr>) =
     Return (\<not> d_eq fp x (d_zero fp)) (I\<lparr>stack := s\<rparr>) \<and>
   pop_bool fp (I\<lparr>stack := s @ [\<lparr>wtype = String, wvalue = Str t, wunit = u\<rparr>]\<rparr>) =
     Return (t \<noteq> [] \<and> t \<noteq> ''0'' \<and> t \<noteq> ''false'' \<and> t \<noteq> ''False'') (I\<lparr>stack := s\<rparr>) \<and>
   pop_bool fp (I\<lparr>stack := s @ [\<lparr>wtype = Symbol, wvalue = Str t, wunit = u\<rparr>]\<rparr>) =
     Return (t \<noteq> [] \<and> t \<noteq> ''0'' \<and> t \<noteq> ''false'' \<and> t \<noteq> ''False'') (I\<lparr>stack := s\<rparr>) \<and>
   pop_bool fp (I\<lparr>stack := s @ [\<lparr>wtype = Unknown, wvalue = Monostate, wunit = u\<rparr>]\<rparr>) =
     Return False (I\<lparr>stack := s\<rparr>)"
  by (simp add: pop_bool_def get_int64_def get_double_def get_string_def)

text \<open>
  The Symbol \<open>False\<close> is false, the String \<open>no\<close> is true, the Double \<open>-0.0\<close> is
  false.
\<close>

theorem pop_bool_by_tag_witness:
  "pop_bool binary64_ops (WoflangInterpreter\<lparr>stack := [make_symbol ''False'']\<rparr>) =
     Return False WoflangInterpreter \<and>
   pop_bool binary64_ops (WoflangInterpreter\<lparr>stack := [make_string ''no'']\<rparr>) =
     Return True WoflangInterpreter \<and>
   pop_bool binary64_ops (WoflangInterpreter\<lparr>stack := [make_double (Finite True 0 (- 1074))]\<rparr>) =
     Return False WoflangInterpreter"
  using pop_bool_by_tag [where fp = binary64_ops and I = WoflangInterpreter and s = "[]"
      and t = "''False''" and u = None and x = "Finite True 0 (- 1074)"]
    pop_bool_by_tag [where fp = binary64_ops and I = WoflangInterpreter and s = "[]"
      and t = "''no''" and u = None]
  by (simp add: make_symbol_def make_string_def make_double_def WofValue_default_def
        WoflangInterpreter_def register_op_def binary64_ops_def b64_eq_def)

subsection \<open>Rounding to the nearest integer\<close>

text \<open>
  \<open>b64_magnitude\<close> is within one half of \<open>m * 2^e\<close>, and above it when the
  distance is one half; so \<open>b64_llround\<close> gives the nearest integer, halves away from
  zero, whenever that integer fits 64 bits.
\<close>

lemma half_up_div:
  fixes m D :: nat
  assumes "0 < D"
  defines "r \<equiv> (2 * m + D) div (2 * D)"
  shows "\<bar>real r - real m / real D\<bar> \<le> 1 / 2"
    and "\<bar>real r - real m / real D\<bar> = 1 / 2 \<Longrightarrow> real m / real D < real r"
proof -
  define t where "t = (2 * m + D) mod (2 * D)"
  define y where "y = real t / real D"
  have "2 * m + D = 2 * D * r + t"
    by (simp add: r_def t_def)
  then have "real (2 * m + D) = real (2 * D * r + t)"
    by (rule arg_cong)
  then have x: "real m / real D = real r + y / 2 - 1 / 2"
    using assms(1) by (simp add: y_def field_simps)
  have "t < 2 * D" using assms(1) by (simp add: t_def)
  then have "real t < 2 * real D" by (metis of_nat_less_iff of_nat_mult of_nat_numeral)
  then have y: "0 \<le> y" "y < 2"
    using assms(1) by (simp_all add: y_def field_simps)
  show "\<bar>real r - real m / real D\<bar> \<le> 1 / 2"
    using y unfolding x by linarith
  show "real m / real D < real r" if "\<bar>real r - real m / real D\<bar> = 1 / 2"
    using that y unfolding x by linarith
qed

lemma magnitude_nearest:
  defines "a \<equiv> (\<lambda>m e. if 0 \<le> e then real m * 2 ^ nat e else real m / 2 ^ nat (- e))"
  shows "\<bar>real (b64_magnitude m e) - a m e\<bar> \<le> 1 / 2"
    and "\<bar>real (b64_magnitude m e) - a m e\<bar> = 1 / 2 \<Longrightarrow> a m e < real (b64_magnitude m e)"
proof -
  show "\<bar>real (b64_magnitude m e) - a m e\<bar> \<le> 1 / 2"
  proof (cases "0 \<le> e")
    case True
    then show ?thesis by (simp add: a_def b64_magnitude_def)
  next
    case False
    then show ?thesis
      using half_up_div(1) [of "2 ^ nat (- e)" m] by (simp add: a_def b64_magnitude_def)
  qed
  show "a m e < real (b64_magnitude m e)" if "\<bar>real (b64_magnitude m e) - a m e\<bar> = 1 / 2"
  proof (cases "0 \<le> e")
    case True
    then show ?thesis using that by (simp add: a_def b64_magnitude_def)
  next
    case False
    then show ?thesis
      using that half_up_div(2) [of "2 ^ nat (- e)" m] by (simp add: a_def b64_magnitude_def)
  qed
qed

lemma b64_llround_nearest:
  assumes "- (2 ^ 63) - 1 / 2 < b64_value (Finite s m e)"
    and "b64_value (Finite s m e) < 2 ^ 63 - 1 / 2"
  shows "\<bar>real_of_int (sint (b64_llround (Finite s m e))) - b64_value (Finite s m e)\<bar> \<le> 1 / 2"
    and "\<bar>real_of_int (sint (b64_llround (Finite s m e))) - b64_value (Finite s m e)\<bar> = 1 / 2 \<Longrightarrow>
           \<bar>b64_value (Finite s m e)\<bar> < \<bar>real_of_int (sint (b64_llround (Finite s m e)))\<bar>"
proof -
  define a where "a = (if 0 \<le> e then real m * 2 ^ nat e else real m / 2 ^ nat (- e))"
  define r where "r = b64_magnitude m e"
  define i where "i = (if s then - int r else int r)"
  have v: "b64_value (Finite s m e) = (if s then - a else a)"
    by (simp add: b64_value_def a_def)
  have a0: "0 \<le> a" by (simp add: a_def)
  have near: "\<bar>real r - a\<bar> \<le> 1 / 2"
    using magnitude_nearest(1) [of m e] by (simp add: r_def a_def)
  have tie: "a < real r" if "\<bar>real r - a\<bar> = 1 / 2"
    using that magnitude_nearest(2) [of m e] by (simp add: r_def a_def)
  have "r \<le> 2 ^ 63" if s
    using that assms(1) near unfolding v by (simp, linarith)
  moreover have "r < 2 ^ 63" if "\<not> s"
    using that assms(2) near unfolding v by (simp, linarith)
  ultimately have range: "- (2 ^ 63) \<le> i \<and> i \<le> 2 ^ 63 - 1"
    by (cases s) (auto simp add: i_def)
  then have "b64_llround (Finite s m e) = word_of_int i"
    unfolding i_def r_def by (auto simp add: b64_llround_def Let_def)
  moreover have "sint (word_of_int i :: 64 word) = i"
    using range by (simp add: sint_sbintrunc' signed_take_bit_int_eq_self)
  ultimately have i: "real_of_int (sint (b64_llround (Finite s m e))) = (if s then - real r else real r)"
    by (simp add: i_def)
  show "\<bar>real_of_int (sint (b64_llround (Finite s m e))) - b64_value (Finite s m e)\<bar> \<le> 1 / 2"
    using near unfolding i v by (cases s) (simp_all add: abs_minus_commute)
  show "\<bar>b64_value (Finite s m e)\<bar> < \<bar>real_of_int (sint (b64_llround (Finite s m e)))\<bar>"
    if "\<bar>real_of_int (sint (b64_llround (Finite s m e))) - b64_value (Finite s m e)\<bar> = 1 / 2"
  proof -
    have "\<bar>real r - a\<bar> = 1 / 2"
      using that unfolding i v by (auto simp add: abs_if split: if_splits)
    then have "a < real r" by (rule tie)
    then show ?thesis using a0 unfolding i v by simp
  qed
qed

text \<open>
  C10, as the code has it: \<open>pop_int\<close> on a non-empty stack whose top value is a Double
  does not throw: it returns \<open>llround\<close> of the payload as a 64-bit signed integer, and
  removes the value. An Integer gives its payload. The type error is thrown for a String,
  a Symbol or an Unknown value, and for nothing else. In binary64, when the payload is a
  finite number strictly between \<open>-2^63 - 1/2\<close> and \<open>2^63 - 1/2\<close>, the integer
  returned is the nearest to the payload: the two differ by at most one half, and when
  they differ by exactly one half the integer is the one further from zero.
\<close>

theorem pop_int_by_tag:
  "pop_int fp (I\<lparr>stack := st @ [\<lparr>wtype = Double, wvalue = Dbl x, wunit = u\<rparr>]\<rparr>) =
     Return (d_llround fp x) (I\<lparr>stack := st\<rparr>) \<and>
   pop_int fp (I\<lparr>stack := st @ [\<lparr>wtype = Integer, wvalue = Int64 i, wunit = u\<rparr>]\<rparr>) =
     Return i (I\<lparr>stack := st\<rparr>) \<and>
   pop_int fp (I\<lparr>stack := st @ [\<lparr>wtype = String, wvalue = Str t, wunit = u\<rparr>]\<rparr>) =
     Throw (runtime_error ''pop_int: value is not numeric'') (I\<lparr>stack := st\<rparr>) \<and>
   pop_int fp (I\<lparr>stack := st @ [\<lparr>wtype = Symbol, wvalue = Str t, wunit = u\<rparr>]\<rparr>) =
     Throw (runtime_error ''pop_int: value is not numeric'') (I\<lparr>stack := st\<rparr>) \<and>
   pop_int fp (I\<lparr>stack := st @ [\<lparr>wtype = Unknown, wvalue = Monostate, wunit = u\<rparr>]\<rparr>) =
     Throw (runtime_error ''pop_int: value is not numeric'') (I\<lparr>stack := st\<rparr>) \<and>
   (- (2 ^ 63) - 1 / 2 < b64_value (Finite s m e) \<and> b64_value (Finite s m e) < 2 ^ 63 - 1 / 2 \<longrightarrow>
    (\<exists>w. pop_int binary64_ops
            (J\<lparr>stack := sj @ [\<lparr>wtype = Double, wvalue = Dbl (Finite s m e), wunit = uj\<rparr>]\<rparr>) =
          Return w (J\<lparr>stack := sj\<rparr>) \<and>
        \<bar>real_of_int (sint w) - b64_value (Finite s m e)\<bar> \<le> 1 / 2 \<and>
        (\<bar>real_of_int (sint w) - b64_value (Finite s m e)\<bar> = 1 / 2 \<longrightarrow>
         \<bar>b64_value (Finite s m e)\<bar> < \<bar>real_of_int (sint w)\<bar>)))"
proof -
  have popped: "pop_int binary64_ops
      (J\<lparr>stack := sj @ [\<lparr>wtype = Double, wvalue = Dbl (Finite s m e), wunit = uj\<rparr>]\<rparr>) =
      Return (b64_llround (Finite s m e)) (J\<lparr>stack := sj\<rparr>)"
    by (simp add: pop_int_def get_double_def binary64_ops_def)
  have "\<exists>w. pop_int binary64_ops
            (J\<lparr>stack := sj @ [\<lparr>wtype = Double, wvalue = Dbl (Finite s m e), wunit = uj\<rparr>]\<rparr>) =
          Return w (J\<lparr>stack := sj\<rparr>) \<and>
        \<bar>real_of_int (sint w) - b64_value (Finite s m e)\<bar> \<le> 1 / 2 \<and>
        (\<bar>real_of_int (sint w) - b64_value (Finite s m e)\<bar> = 1 / 2 \<longrightarrow>
         \<bar>b64_value (Finite s m e)\<bar> < \<bar>real_of_int (sint w)\<bar>)"
    if "- (2 ^ 63) - 1 / 2 < b64_value (Finite s m e)" "b64_value (Finite s m e) < 2 ^ 63 - 1 / 2"
    using b64_llround_nearest [OF that] popped
    by (intro exI [of _ "b64_llround (Finite s m e)"]) simp
  then show ?thesis
    by (simp add: pop_int_def get_int64_def get_double_def get_string_def error_def)
qed

text \<open>
  In binary64 the Double 2.5 is popped as 3 and the Double \<open>-2.5\<close> as \<open>-3\<close>, each
  one half away from the payload and further from zero.
\<close>

theorem pop_int_by_tag_witness:
  "pop_int binary64_ops (WoflangInterpreter\<lparr>stack := [make_double (Finite False (5 * 2 ^ 50) (- 51))]\<rparr>) =
     Return 3 WoflangInterpreter \<and>
   pop_int binary64_ops (WoflangInterpreter\<lparr>stack := [make_double (Finite True (5 * 2 ^ 50) (- 51))]\<rparr>) =
     Return (- 3) WoflangInterpreter \<and>
   b64_value (Finite False (5 * 2 ^ 50) (- 51)) = 5 / 2 \<and>
   b64_value (Finite True (5 * 2 ^ 50) (- 51)) = - (5 / 2) \<and>
   \<bar>real_of_int (sint (3 :: 64 word)) - 5 / 2\<bar> = 1 / 2 \<and>
   \<bar>real_of_int (sint (- 3 :: 64 word)) - (- (5 / 2))\<bar> = 1 / 2"
  using pop_int_by_tag [where fp = binary64_ops and I = WoflangInterpreter and st = "[]"
      and u = None and x = "Finite False (5 * 2 ^ 50) (- 51)"
      and J = WoflangInterpreter and sj = "[]" and uj = None
      and s = False and m = "5 * 2 ^ 50" and e = "- 51"]
    pop_int_by_tag [where fp = binary64_ops and I = WoflangInterpreter and st = "[]"
      and u = None and x = "Finite True (5 * 2 ^ 50) (- 51)"
      and J = WoflangInterpreter and sj = "[]" and uj = None
      and s = True and m = "5 * 2 ^ 50" and e = "- 51"]
  by (simp add: make_double_def WofValue_default_def WoflangInterpreter_def register_op_def
        binary64_ops_def b64_llround_def b64_magnitude_def b64_value_def)

text \<open>
  As first stated (for every Double on top, the payload rounded to the nearest 64-bit
  signed integer) C10 fails outside the range: the line \<open>10000000000 1000000000 *\<close>
  leaves the Double \<open>10^19\<close> on the stack of a new interpreter, and \<open>pop_int\<close>
  returns \<open>-2^63\<close> for it, where the nearest 64-bit integer is \<open>2^63 - 1\<close>.
\<close>

theorem pop_int_out_of_range:
  "exec_line no_plugins binary64_ops ''10000000000 1000000000 *'' WoflangInterpreter =
     Return () (WoflangInterpreter\<lparr>stack := [make_double (Finite False 4882812500000000 11)]\<rparr>) \<and>
   b64_value (Finite False 4882812500000000 11) = 10 ^ 19 \<and>
   pop_int binary64_ops (WoflangInterpreter\<lparr>stack := [make_double (Finite False 4882812500000000 11)]\<rparr>) =
     Return (- 9223372036854775808) WoflangInterpreter \<and>
   sint (- 9223372036854775808 :: 64 word) = - 9223372036854775808"
  by (simp add: line_eval b64_eval run_mul_def b64_value_def pop_int_def b64_llround_def
        b64_magnitude_def)

end
